theory Spec2Isabelle
  imports Complex_Main "HOL-Library.Multiset" "HOL-Library.AList"
begin

section \<open>The synchronization core of the diasend to nightscout bridge (src/index.ts)\<close>

text \<open>
  A shallow embedding of \<^verbatim>\<open>src/index.ts\<close>. The functions of index.ts are translated as
  they are written. What index.ts imports from \<^verbatim>\<open>./adapter\<close>, \<^verbatim>\<open>./diasend\<close>,
  \<^verbatim>\<open>./nightscout\<close> and \<^verbatim>\<open>./config\<close> is not part of the inspected source: the functions
  of the adapter and the network services are parameters of the model (records of functions),
  and every theorem about index.ts holds for all of them.

  Conventions.
  \<^item> The date of a record or of an entry is its time value: an integer, milliseconds since the
    epoch, and \<open>dayjs(a).diff(b)\<close> is \<open>a - b\<close>. A record or an entry whose date does not
    parse is outside the model. A \<open>Date\<close> object that the code builds is a \<open>jsdate\<close>: a time
    value within the range of \<open>Date\<close>, or \<open>Invalid Date\<close>.
  \<^item> A rejected promise or a thrown exception is \<open>Inl e\<close>, a fulfilled one is \<open>Inr v\<close>.
  \<^item> A function that awaits services returns, with its result, the list of the service calls it
    made, in order.
  \<^item> Objects that are compared by identity (\<open>indexOf\<close>) carry their address in the field
    \<open>ref\<close>; \<open>getDiasendPatientData\<close> builds every record it returns as a new object, taking
    addresses from the counter \<open>heap\<close> upwards.
\<close>

subsection \<open>Data model\<close>

datatype record_type = glucose | carb | insulin_bolus | insulin_basal

type_synonym timestamp = int

text \<open>
  A \<open>Date\<close> object. Its time value is at most 8640000000000000 milliseconds away from the
  epoch; \<open>new Date(t)\<close> with \<open>t\<close> outside this range is \<open>Invalid Date\<close>.
\<close>

datatype jsdate = Date timestamp | InvalidDate

definition maxTime :: timestamp where
  "maxTime = 8640000000000000"

definition newDate :: "timestamp \<Rightarrow> jsdate" where
  "newDate t = (if - maxTime \<le> t \<and> t \<le> maxTime then Date t else InvalidDate)"

text \<open>\<open>dayjs(d).add(1, "second").toDate()\<close>.\<close>

definition addSecond :: "jsdate \<Rightarrow> jsdate" where
  "addSecond d = (case d of Date t \<Rightarrow> newDate (t + 1000) | InvalidDate \<Rightarrow> InvalidDate)"

text \<open>A record as the diasend API delivers it, inside the data of one device.\<close>

record raw_record =
  raw_type :: record_type
  raw_created_at :: timestamp
  raw_value :: rat

record device_data =
  dd_device :: string
  dd_data :: "raw_record list"

text \<open>\<open>PatientRecordWithDeviceData\<close> of a \<open>PatientRecord\<close>: the object \<open>{...r, device}\<close>.\<close>

record patient_record =
  ref :: nat
  rtype :: record_type
  created_at :: timestamp
  rvalue :: rat
  device :: string

text \<open>\<open>Entry\<close> of nightscout; index.ts reads its \<open>date\<close> only.\<close>

record entry =
  date :: timestamp
  sgv :: rat
  entry_device :: string

text \<open>One line of a basal schedule: time of day and rate.\<close>

type_synonym time_based_value = "nat \<times> rat"

text \<open>
  \<open>ProfileConfig\<close>: the basal schedule (\<open>None\<close> is \<open>undefined\<close>) and the other fields
  (\<open>carbratio\<close>, \<open>sens\<close>, \<open>dia\<close>, \<open>timezone\<close>, ...) by name, each value as its JSON text.
\<close>

record profile_config =
  basal :: "time_based_value list option"
  others :: "string \<rightharpoonup> string"

record profile =
  defaultProfile :: string
  store :: "string \<rightharpoonup> profile_config"
  startDate :: string
  units :: string

datatype error = Error string | TypeError string | RangeError string

text \<open>The functions index.ts imports from \<^verbatim>\<open>./adapter\<close>.\<close>

record 't adapter =
  diasendRecordToNightscoutTreatment ::
    "patient_record \<Rightarrow> patient_record list \<Rightarrow> error + 't option"
  diasendGlucoseRecordToNightscoutEntry :: "patient_record \<Rightarrow> entry"
  updateBasalProfile :: "time_based_value list \<Rightarrow> patient_record list \<Rightarrow> time_based_value list"

text \<open>
  The network services index.ts imports from \<^verbatim>\<open>./diasend\<close> and \<^verbatim>\<open>./nightscout\<close>, and the
  order in which the two handler promises of a cycle settle
  (\<open>treatmentsHandlerSettlesFirst\<close>).
\<close>

record 't services =
  obtainDiasendAccessToken :: "string \<Rightarrow> string \<Rightarrow> string \<Rightarrow> string \<Rightarrow> error + string"
  getPatientData :: "string \<Rightarrow> jsdate \<Rightarrow> jsdate \<Rightarrow> error + device_data list"
  reportEntriesToNightscout :: "entry list \<Rightarrow> error + entry list"
  reportTreatmentsToNightscout :: "'t list \<Rightarrow> error + 't list option"
  fetchProfile :: "error + profile"
  updateProfile :: "profile \<Rightarrow> error + profile"
  treatmentsHandlerSettlesFirst :: bool

text \<open>\<open>config.diasend\<close> and \<open>config.nightscout\<close>.\<close>

record config =
  cfg_username :: "string option"
  cfg_password :: "string option"
  cfg_clientId :: string
  cfg_clientSecret :: string
  cfg_profileName :: "string option"

text \<open>
  The argument bag: \<open>SyncDiasendDataToNightScoutArgs & SyncDiasendGlucoseToNightscoutArgs &
  NightscoutProfileOptions\<close>. \<open>None\<close> is \<open>undefined\<close>.
\<close>

record 't sync_args =
  diasendUsername :: "string option"
  diasendPassword :: "string option"
  diasendClientId :: "string option"
  diasendClientSecret :: "string option"
  dateFrom :: "jsdate option"
  dateTo :: "jsdate option"
  nightscoutEntriesHandler :: "(entry list \<Rightarrow> error + entry list) option"
  nightscoutProfileName :: "string option"
  nightscoutTreatmentsHandler :: "('t list \<Rightarrow> error + 't list option) option"
  previousRecords :: "patient_record list option"
  nightscoutProfileLoader :: "(error + profile) option"
  nightscoutProfileHandler :: "(profile \<Rightarrow> error + profile) option"

datatype 't call =
    ObtainToken
  | GetPatientData jsdate jsdate
  | CallEntriesHandler "entry list"
  | CallTreatmentsHandler "'t list"
  | CallProfileLoader
  | CallProfileHandler profile

record glucose_result =
  entries :: "entry list"
  entriesLatestRecordDate :: "timestamp option"

record 't sync_result =
  treatments :: "'t list"
  profile :: profile
  latestRecordDate :: "timestamp option"
  unprocessedRecords :: "patient_record list"

subsection \<open>Helpers of the JavaScript semantics\<close>

text \<open>A default parameter value applies when the argument is \<open>undefined\<close>.\<close>

definition orDefault :: "'a option \<Rightarrow> 'a \<Rightarrow> 'a" where
  "orDefault a d = (case a of None \<Rightarrow> d | Some v \<Rightarrow> v)"

text \<open>\<open>!s\<close> for an optional string: \<open>undefined\<close> and the empty string are falsy.\<close>

definition falsy :: "string option \<Rightarrow> bool" where
  "falsy s = (case s of None \<Rightarrow> True | Some v \<Rightarrow> v = [])"

text \<open>
  \<open>xs.sort((a, b) => dayjs(key(b)).diff(key(a)))\<close>: a stable sort, latest first.
\<close>

definition sortLatestFirst :: "('a \<Rightarrow> timestamp) \<Rightarrow> 'a list \<Rightarrow> 'a list" where
  "sortLatestFirst key xs = sort_key (\<lambda>x. - key x) xs"

text \<open>\<open>xs.indexOf(r)\<close> compares objects by identity; \<open>-1\<close> when \<open>r\<close> is not in \<open>xs\<close>.\<close>

fun indexOfFrom :: "int \<Rightarrow> patient_record list \<Rightarrow> patient_record \<Rightarrow> int" where
  "indexOfFrom i [] r = - 1"
| "indexOfFrom i (x # xs) r = (if ref x = ref r then i else indexOfFrom (i + 1) xs r)"

definition indexOf :: "patient_record list \<Rightarrow> patient_record \<Rightarrow> int" where
  "indexOf xs r = indexOfFrom 0 xs r"

subsection \<open>identifyTreatments\<close>

definition isCarbOrBolus :: "patient_record \<Rightarrow> bool" where
  "isCarbOrBolus record = (rtype record \<in> set [insulin_bolus, carb])"

text \<open>
  The callback of \<open>reduce\<close>: \<open>allRecords\<close> is the array \<open>reduce\<close> runs on, the accumulator
  \<open>treatments\<close> is paired with the captured array \<open>unprocessedRecords\<close>.
\<close>

definition reduceStep ::
  "(patient_record \<Rightarrow> patient_record list \<Rightarrow> error + 't option) \<Rightarrow> patient_record list \<Rightarrow>
   patient_record \<Rightarrow> 't list \<times> patient_record list \<Rightarrow> 't list \<times> patient_record list" where
  "reduceStep resolve allRecords record acc =
     (case resolve record allRecords of
        Inr (Some treatment) \<Rightarrow> (fst acc @ [treatment], snd acc)
      | Inr None \<Rightarrow> acc
      | Inl e \<Rightarrow> (fst acc, snd acc @ [record]))"

definition identifyTreatments ::
  "(patient_record \<Rightarrow> patient_record list \<Rightarrow> error + 't option) \<Rightarrow> patient_record list \<Rightarrow>
   't list \<times> patient_record list" where
  "identifyTreatments resolve records =
     (let allRecords = filter isCarbOrBolus records
      in fold (reduceStep resolve allRecords) allRecords ([], []))"

subsection \<open>getDiasendPatientData\<close>

text \<open>
  \<open>records.flatMap((record) => record.data.map((r) => ({...r, device: record.device})))\<close>,
  every object new.
\<close>

definition withDeviceData :: "nat \<Rightarrow> device_data list \<Rightarrow> patient_record list" where
  "withDeviceData heap records =
     map (\<lambda>(a, (d, r)). \<lparr>ref = a, rtype = raw_type r, created_at = raw_created_at r,
                          rvalue = raw_value r, device = d\<rparr>)
       (enumerate heap
          (concat (map (\<lambda>record. map (\<lambda>r. (dd_device record, r)) (dd_data record)) records)))"

definition getDiasendPatientData ::
  "'t services \<Rightarrow> nat \<Rightarrow> string option \<Rightarrow> string option \<Rightarrow> string \<Rightarrow> string \<Rightarrow>
   jsdate \<Rightarrow> jsdate \<Rightarrow> 't call list \<times> (error + patient_record list)" where
  "getDiasendPatientData sv heap username password clientId clientSecret dFrom dTo =
     (if falsy username then ([], Inl (Error ''Diasend Username not configured''))
      else if falsy password then ([], Inl (Error ''Diasend Password not configured''))
      else
        (case obtainDiasendAccessToken sv clientId clientSecret
                (orDefault username []) (orDefault password []) of
           Inl e \<Rightarrow> ([ObtainToken], Inl e)
         | Inr token \<Rightarrow>
             (case getPatientData sv token dFrom dTo of
                Inl e \<Rightarrow> ([ObtainToken, GetPatientData dFrom dTo], Inl e)
              | Inr records \<Rightarrow>
                  ([ObtainToken, GetPatientData dFrom dTo], Inr (withDeviceData heap records)))))"

subsection \<open>syncDiasendGlucoseToNightscout\<close>

text \<open>
  \<open>latestRecordDate\<close> of the entries: the time value that \<open>new Date\<close> is given. Between the
  fetch and the call of the handler the function logs \<open>dateFrom.toISOString()\<close> and
  \<open>dateTo.toISOString()\<close>, which throw a \<open>RangeError\<close> for \<open>Invalid Date\<close>.
\<close>

definition latestEntryDate :: "entry list \<Rightarrow> timestamp option" where
  "latestEntryDate es =
     (if length es > 0 then Some (date (hd (sortLatestFirst date es))) else None)"

definition syncDiasendGlucoseToNightscout ::
  "config \<Rightarrow> 't adapter \<Rightarrow> 't services \<Rightarrow> timestamp \<Rightarrow> nat \<Rightarrow> 't sync_args \<Rightarrow>
   't call list \<times> (error + glucose_result)" where
  "syncDiasendGlucoseToNightscout cfg ad sv now heap args =
     (let username = (case diasendUsername args of None \<Rightarrow> cfg_username cfg | Some u \<Rightarrow> Some u);
          password = (case diasendPassword args of None \<Rightarrow> cfg_password cfg | Some p \<Rightarrow> Some p);
          clientId = orDefault (diasendClientId args) (cfg_clientId cfg);
          clientSecret = orDefault (diasendClientSecret args) (cfg_clientSecret cfg);
          handler = orDefault (nightscoutEntriesHandler args) (reportEntriesToNightscout sv);
          dFrom = orDefault (dateFrom args) (newDate (now - 10 * 60 * 1000));
          dTo = orDefault (dateTo args) (newDate now)
      in case getDiasendPatientData sv heap username password clientId clientSecret dFrom dTo of
           (cs, Inl e) \<Rightarrow> (cs, Inl e)
         | (cs, Inr records) \<Rightarrow>
             (let nightscoutEntries =
                    map (diasendGlucoseRecordToNightscoutEntry ad)
                      (filter (\<lambda>record. rtype record = glucose) records)
              in if dFrom = InvalidDate \<or> dTo = InvalidDate
                 then (cs, Inl (RangeError ''Invalid time value''))
                 else
                   (case handler nightscoutEntries of
                      Inl e \<Rightarrow> (cs @ [CallEntriesHandler nightscoutEntries], Inl e)
                    | Inr es \<Rightarrow>
                        (cs @ [CallEntriesHandler nightscoutEntries],
                         Inr \<lparr>entries = (if length es > 0 then sortLatestFirst date es else es),
                              entriesLatestRecordDate = latestEntryDate es\<rparr>))))"

subsection \<open>syncDiasendDataToNightscout\<close>

text \<open>The fetched records without the glucose records (the \<open>filter\<close> after the fetch).\<close>

definition nonGlucose :: "patient_record list \<Rightarrow> patient_record list" where
  "nonGlucose fetched = filter (\<lambda>r. rtype r \<noteq> glucose) fetched"

text \<open>\<open>latestRecordDate\<close> (the time value that \<open>new Date\<close> is given), computed from \<open>records\<close> before the postponed records are re-added.\<close>

definition latestOf :: "patient_record list \<Rightarrow> timestamp option" where
  "latestOf records =
     (if length records > 0 then Some (created_at (hd (sortLatestFirst created_at records)))
      else None)"

text \<open>
  \<open>records\<close> after \<open>records.unshift(...previousRecords)\<close>. The \<open>sort\<close> of the line before
  works in place, so the fetched records are in the array latest first.
\<close>

definition withPrevious :: "patient_record list \<Rightarrow> patient_record list \<Rightarrow> patient_record list" where
  "withPrevious prev records =
     prev @ (if length records > 0 then sortLatestFirst created_at records else records)"

definition basalRecordsOf :: "patient_record list \<Rightarrow> patient_record list" where
  "basalRecordsOf records = filter (\<lambda>record. rtype record = insulin_basal) records"

text \<open>
  The store is a plain object: besides its own keys it has the members it inherits from
  \<open>Object.prototype\<close>. The operator \<open>in\<close> answers for both, and so does the read \<open>store[name]\<close>.
\<close>

definition objectPrototypeMembers :: "string list" where
  "objectPrototypeMembers =
     [''constructor'', ''__defineGetter__'', ''__defineSetter__'', ''hasOwnProperty'',
      ''__lookupGetter__'', ''__lookupSetter__'', ''isPrototypeOf'', ''propertyIsEnumerable'',
      ''toString'', ''valueOf'', ''__proto__'', ''toLocaleString'']"

definition jsIn :: "string \<Rightarrow> (string \<rightharpoonup> 'a) \<Rightarrow> bool" where
  "jsIn name obj = (name \<in> dom obj \<or> name \<in> set objectPrototypeMembers)"

text \<open>
  An inherited member is a function (\<open>Object.prototype\<close> itself for \<open>__proto__\<close>): its \<open>basal\<close>
  is \<open>undefined\<close> and the spread of it copies nothing, as for an object without fields.
\<close>

definition inheritedMember :: profile_config where
  "inheritedMember = \<lparr>basal = None, others = Map.empty\<rparr>"

text \<open>\<open>store[name]\<close>; \<open>None\<close> is \<open>undefined\<close>.\<close>

definition jsGet :: "(string \<rightharpoonup> profile_config) \<Rightarrow> string \<Rightarrow> profile_config option" where
  "jsGet obj name =
     (case obj name of
        Some c \<Rightarrow> Some c
      | None \<Rightarrow> if name \<in> set objectPrototypeMembers then Some inheritedMember else None)"

text \<open>
  \<open>existingProfileConfig\<close>: \<open>store[nightscoutProfileName]\<close> when \<open>nightscoutProfileName in
  store\<close>, else \<open>store[defaultProfile]\<close>.
\<close>

definition existingProfileConfigOf :: "string \<Rightarrow> profile \<Rightarrow> profile_config option" where
  "existingProfileConfigOf name existingProfile =
     (if jsIn name (store existingProfile) then jsGet (store existingProfile) name
      else jsGet (store existingProfile) (defaultProfile existingProfile))"

definition updatedProfileOf ::
  "string \<Rightarrow> profile \<Rightarrow> profile_config \<Rightarrow> time_based_value list \<Rightarrow> profile" where
  "updatedProfileOf name existingProfile existingProfileConfig updatedBasalProfile =
     existingProfile\<lparr>store :=
       (store existingProfile)(name \<mapsto> existingProfileConfig\<lparr>basal := Some updatedBasalProfile\<rparr>)\<rparr>"

text \<open>
  \<open>Promise.all\<close> of the two handlers: both are called; the result is rejected when one of
  them is, with the rejection that comes first (\<open>firstSettlesFirst\<close> tells which promise
  settles first).
\<close>

definition promiseAll :: "bool \<Rightarrow> error + 'a \<Rightarrow> error + 'b \<Rightarrow> error + ('a \<times> 'b)" where
  "promiseAll firstSettlesFirst a b =
     (case a of
        Inl e \<Rightarrow> (case b of Inl e' \<Rightarrow> Inl (if firstSettlesFirst then e else e') | Inr y \<Rightarrow> Inl e)
      | Inr x \<Rightarrow> (case b of Inl e' \<Rightarrow> Inl e' | Inr y \<Rightarrow> Inr (x, y)))"

text \<open>The body of \<open>syncDiasendDataToNightscout\<close> after the fetch has returned \<open>fetched\<close>.\<close>

definition syncFetched ::
  "'t adapter \<Rightarrow> bool \<Rightarrow> string \<Rightarrow> (error + profile) \<Rightarrow> ('t list \<Rightarrow> error + 't list option) \<Rightarrow>
   (profile \<Rightarrow> error + profile) \<Rightarrow> patient_record list \<Rightarrow> patient_record list \<Rightarrow>
   't call list \<times> (error + 't sync_result)" where
  "syncFetched ad treatmentsFirst name loader treatmentsHandler profileHandler prev fetched =
     (let records = nonGlucose fetched;
          latest = latestOf records;
          records' = withPrevious prev records;
          identified = identifyTreatments (diasendRecordToNightscoutTreatment ad) records'
      in case loader of
           Inl e \<Rightarrow> ([CallProfileLoader], Inl e)
         | Inr existingProfile \<Rightarrow>
             (case existingProfileConfigOf name existingProfile of
                None \<Rightarrow>
                  ([CallProfileLoader],
                   Inl (TypeError ''Cannot read properties of undefined (reading basal)''))
              | Some existingProfileConfig \<Rightarrow>
                  (let basalRecords = basalRecordsOf records';
                       updatedBasalProfile =
                         updateBasalProfile ad (orDefault (basal existingProfileConfig) [])
                           basalRecords;
                       updatedProfile =
                         updatedProfileOf name existingProfile existingProfileConfig
                           updatedBasalProfile;
                       cs = [CallProfileLoader, CallTreatmentsHandler (fst identified),
                             CallProfileHandler updatedProfile]
                   in case promiseAll treatmentsFirst (treatmentsHandler (fst identified))
                             (profileHandler updatedProfile) of
                        Inl e \<Rightarrow> (cs, Inl e)
                      | Inr (ts, p) \<Rightarrow>
                          (cs,
                           Inr \<lparr>treatments = orDefault ts [],
                                profile = p,
                                latestRecordDate = latest,
                                unprocessedRecords =
                                  filter (\<lambda>record. indexOf prev record = - 1)
                                    (snd identified)\<rparr>))))"

text \<open>The profile name: the argument, else \<open>config.nightscout.profileName!\<close>; an undefined
  name is the property key \<open>"undefined"\<close>.\<close>

definition profileNameOf :: "config \<Rightarrow> 't sync_args \<Rightarrow> string" where
  "profileNameOf cfg args =
     orDefault (case nightscoutProfileName args of None \<Rightarrow> cfg_profileName cfg | Some n \<Rightarrow> Some n)
       ''undefined''"

definition syncDiasendDataToNightscout ::
  "config \<Rightarrow> 't adapter \<Rightarrow> 't services \<Rightarrow> timestamp \<Rightarrow> nat \<Rightarrow> 't sync_args \<Rightarrow>
   't call list \<times> (error + 't sync_result)" where
  "syncDiasendDataToNightscout cfg ad sv now heap args =
     (let username = (case diasendUsername args of None \<Rightarrow> cfg_username cfg | Some u \<Rightarrow> Some u);
          password = (case diasendPassword args of None \<Rightarrow> cfg_password cfg | Some p \<Rightarrow> Some p);
          clientId = orDefault (diasendClientId args) (cfg_clientId cfg);
          clientSecret = orDefault (diasendClientSecret args) (cfg_clientSecret cfg);
          treatmentsHandler =
            orDefault (nightscoutTreatmentsHandler args) (reportTreatmentsToNightscout sv);
          name = profileNameOf cfg args;
          profileHandler = orDefault (nightscoutProfileHandler args) (updateProfile sv);
          loader = orDefault (nightscoutProfileLoader args) (fetchProfile sv);
          dFrom = orDefault (dateFrom args) (newDate (now - 10 * 60 * 1000));
          dTo = orDefault (dateTo args) (newDate now);
          prev = orDefault (previousRecords args) []
      in case getDiasendPatientData sv heap username password clientId clientSecret dFrom dTo of
           (cs, Inl e) \<Rightarrow> (cs, Inl e)
         | (cs, Inr fetched) \<Rightarrow>
             (case syncFetched ad (treatmentsHandlerSettlesFirst sv) name loader treatmentsHandler
                     profileHandler prev fetched of
                (cs', r) \<Rightarrow> (cs @ cs', r)))"

subsection \<open>The step functions of startSynchronization\<close>


text \<open>
  \<open>({ dateTo, ...args }) => ...\<close>: \<open>args\<close> is the state without \<open>dateTo\<close>. The next \<open>dateFrom\<close>
  is \<open>dayjs(latestRecordDate).add(1, "second").toDate()\<close>, which is \<open>Invalid Date\<close> when the
  sum leaves the range of \<open>Date\<close>.
\<close>

definition entriesStep ::
  "config \<Rightarrow> 't adapter \<Rightarrow> 't services \<Rightarrow> timestamp \<Rightarrow> nat \<Rightarrow> 't sync_args \<Rightarrow>
   't call list \<times> (error + 't sync_args)" where
  "entriesStep cfg ad sv now heap state =
     (let args = state\<lparr>dateTo := None\<rparr>
      in case syncDiasendGlucoseToNightscout cfg ad sv now heap (args\<lparr>dateTo := dateTo state\<rparr>) of
           (cs, Inl e) \<Rightarrow> (cs, Inl e)
         | (cs, Inr res) \<Rightarrow>
             (cs, Inr (args\<lparr>dateFrom :=
                (case entriesLatestRecordDate res of
                   Some latest \<Rightarrow> Some (addSecond (newDate latest))
                 | None \<Rightarrow> dateFrom args)\<rparr>)))"

definition treatmentsStep ::
  "config \<Rightarrow> 't adapter \<Rightarrow> 't services \<Rightarrow> timestamp \<Rightarrow> nat \<Rightarrow> 't sync_args \<Rightarrow>
   't call list \<times> (error + 't sync_args)" where
  "treatmentsStep cfg ad sv now heap state =
     (let args = state\<lparr>dateTo := None\<rparr>
      in case syncDiasendDataToNightscout cfg ad sv now heap (args\<lparr>dateTo := dateTo state\<rparr>) of
           (cs, Inl e) \<Rightarrow> (cs, Inl e)
         | (cs, Inr res) \<Rightarrow>
             (cs, Inr (args\<lparr>dateFrom :=
                         (case latestRecordDate res of
                            Some latest \<Rightarrow> Some (addSecond (newDate latest))
                          | None \<Rightarrow> dateFrom args),
                       previousRecords := Some (unprocessedRecords res)\<rparr>)))"




subsection \<open>The objects of the profile update\<close>

text \<open>
  The lines that build \<open>updatedProfile\<close>, on a store of objects: the profile object holds a
  reference to its store object, and the store object holds, under each of its own keys, a
  reference to a \<open>ProfileConfig\<close> object. A spread copies the fields of an object into a new
  object; the objects that the copied references lead to are shared.
\<close>

type_synonym addr = nat

datatype obj =
    ProfileObj string addr string string
  | StoreObj "(string \<times> addr) list"
  | ConfigObj profile_config

record objheap =
  cells :: "addr \<rightharpoonup> obj"
  nextAddr :: addr

text \<open>A new object.\<close>

definition alloc :: "objheap \<Rightarrow> obj \<Rightarrow> objheap \<times> addr" where
  "alloc h ob =
     (h\<lparr>cells := (cells h)(nextAddr h \<mapsto> ob), nextAddr := Suc (nextAddr h)\<rparr>, nextAddr h)"

definition configAt :: "objheap \<Rightarrow> addr \<Rightarrow> profile_config option" where
  "configAt h a = (case cells h a of Some (ConfigObj c) \<Rightarrow> Some c | _ \<Rightarrow> None)"

text \<open>\<open>store[name]\<close> with the store object's own keys \<open>ents\<close>, read as a \<open>ProfileConfig\<close>.\<close>

definition readMember ::
  "objheap \<Rightarrow> (string \<times> addr) list \<Rightarrow> string \<Rightarrow> profile_config option" where
  "readMember h ents name =
     (case map_of ents name of
        Some a \<Rightarrow> configAt h a
      | None \<Rightarrow> if name \<in> set objectPrototypeMembers then Some inheritedMember else None)"

text \<open>
  From \<open>existingProfileConfig\<close> to \<open>updatedProfile\<close>, for the profile object at the address
  \<open>existingProfile\<close>: three new objects, and no write to an object that exists. \<open>merge\<close> is
  \<open>updateBasalProfile\<close>, a function of its arguments.
\<close>

definition updateProfileOnHeap ::
  "(time_based_value list \<Rightarrow> patient_record list \<Rightarrow> time_based_value list) \<Rightarrow> objheap \<Rightarrow>
   string \<Rightarrow> addr \<Rightarrow> patient_record list \<Rightarrow> error + (objheap \<times> addr)" where
  "updateProfileOnHeap merge h name existingProfile basalRecords =
     (case cells h existingProfile of
        Some (ProfileObj defaultName storeAddr started unit) \<Rightarrow>
          (case cells h storeAddr of
             Some (StoreObj ents) \<Rightarrow>
               (case (if jsIn name (map_of ents) then readMember h ents name
                      else readMember h ents defaultName) of
                  None \<Rightarrow> Inl (TypeError ''Cannot read properties of undefined (reading basal)'')
                | Some existingProfileConfig \<Rightarrow>
                    (let updatedBasalProfile =
                           merge (orDefault (basal existingProfileConfig) []) basalRecords;
                         (h1, newConfig) =
                           alloc h (ConfigObj (existingProfileConfig\<lparr>basal := Some updatedBasalProfile\<rparr>));
                         (h2, newStore) = alloc h1 (StoreObj (AList.update name newConfig ents));
                         (h3, updatedProfile) = alloc h2 (ProfileObj defaultName newStore started unit)
                     in Inr (h3, updatedProfile)))
           | _ \<Rightarrow> Inl (TypeError ''Cannot use in operator to search for a key in undefined''))
      | _ \<Rightarrow> Inl (TypeError ''Cannot read properties of undefined (reading store)''))"

text \<open>The \<open>profile\<close> value that the object at an address stands for.\<close>

definition storeAt :: "objheap \<Rightarrow> (string \<times> addr) list \<Rightarrow> (string \<rightharpoonup> profile_config)" where
  "storeAt h ents = (\<lambda>k. case map_of ents k of None \<Rightarrow> None | Some a \<Rightarrow> configAt h a)"

definition profileAt :: "objheap \<Rightarrow> addr \<Rightarrow> profile option" where
  "profileAt h a =
     (case cells h a of
        Some (ProfileObj defaultName storeAddr started unit) \<Rightarrow>
          (case cells h storeAddr of
             Some (StoreObj ents) \<Rightarrow>
               if list_all (\<lambda>(k, c). configAt h c \<noteq> None) ents
               then Some \<lparr>defaultProfile = defaultName, store = storeAt h ents,
                          startDate = started, units = unit\<rparr>
               else None
           | _ \<Rightarrow> None)
      | _ \<Rightarrow> None)"

subsection \<open>Auxiliary definitions for the statements\<close>

text \<open>The \<open>reduce\<close> of \<open>identifyTreatments\<close> over a part \<open>rs\<close> of the array, with the array
  \<open>allRecords\<close> given to the resolver kept as it is.\<close>

definition reduceOver ::
  "(patient_record \<Rightarrow> patient_record list \<Rightarrow> error + 't option) \<Rightarrow> patient_record list \<Rightarrow>
   patient_record list \<Rightarrow> 't list \<times> patient_record list" where
  "reduceOver resolve allRecords rs = fold (reduceStep resolve allRecords) rs ([], [])"

text \<open>The call of \<open>getDiasendPatientData\<close> that both cycle functions make, with the defaults of
  their parameters filled in.\<close>

definition fetchFor ::
  "config \<Rightarrow> 't services \<Rightarrow> timestamp \<Rightarrow> nat \<Rightarrow> 't sync_args \<Rightarrow>
   't call list \<times> (error + patient_record list)" where
  "fetchFor cfg sv now heap args =
     getDiasendPatientData sv heap
       (case diasendUsername args of None \<Rightarrow> cfg_username cfg | Some u \<Rightarrow> Some u)
       (case diasendPassword args of None \<Rightarrow> cfg_password cfg | Some p \<Rightarrow> Some p)
       (orDefault (diasendClientId args) (cfg_clientId cfg))
       (orDefault (diasendClientSecret args) (cfg_clientSecret cfg))
       (orDefault (dateFrom args) (newDate (now - 10 * 60 * 1000)))
       (orDefault (dateTo args) (newDate now))"

text \<open>The \<open>dateFrom\<close> of the state that a step returns; \<open>None\<close> when it returns none.\<close>

definition nextDateFrom :: "'c list \<times> (error + 't sync_args) \<Rightarrow> jsdate option" where
  "nextDateFrom r = (case snd r of Inr state \<Rightarrow> dateFrom state | Inl e \<Rightarrow> None)"

subsection \<open>updateBasalProfile, modelled from the spec\<close>

text \<open>Modelled from the spec: \<open>updateBasalProfile\<close> of \<^verbatim>\<open>./adapter\<close> converts the observed basal
  records into pairs of time of day and rate (spec 4.3). The spec leaves the bucketing of the
  time of day open, so the conversion \<open>timeOfDay\<close> of a date is a parameter.\<close>

definition basalRecordToPair :: "(timestamp \<Rightarrow> nat) \<Rightarrow> patient_record \<Rightarrow> time_based_value" where
  "basalRecordToPair timeOfDay record = (timeOfDay (created_at record), rvalue record)"

text \<open>Modelled from the spec: replace by time of day (spec 4.3). A pair overrides every pair
  of the schedule with the same time of day; the other pairs are retained unchanged.\<close>

definition overridePair :: "time_based_value \<Rightarrow> time_based_value list \<Rightarrow> time_based_value list" where
  "overridePair new schedule = filter (\<lambda>old. fst old \<noteq> fst new) schedule @ [new]"

text \<open>Modelled from the spec: \<open>updateBasalProfile\<close> of \<^verbatim>\<open>./adapter\<close>, which is not among the
  inspected sources (spec 4.3). The existing pairs and then the newly observed pairs are
  entered by time of day, a later pair overriding an earlier one with the same time of day,
  and the result is sorted by time of day, ascending. The function returns a new sequence.\<close>

definition updateBasalProfile_spec ::
  "(timestamp \<Rightarrow> nat) \<Rightarrow> time_based_value list \<Rightarrow> patient_record list \<Rightarrow> time_based_value list" where
  "updateBasalProfile_spec timeOfDay existing records =
     sort_key fst (fold overridePair (existing @ map (basalRecordToPair timeOfDay) records) [])"

subsection \<open>Sample inputs\<close>

text \<open>
  Concrete inputs at which the theorems below are evaluated. \<open>exampleAdapter\<close> is a sample
  adapter, not the adapter of the repository: it resolves a carb record to a carb correction,
  resolves a bolus to a meal bolus when the array holds a carb record of the same device, and
  throws for a bolus otherwise. Its basal merge is the one modelled from the spec, with the
  second of the day as the time of day.
\<close>

definition exampleTimeOfDay :: "timestamp \<Rightarrow> nat" where
  "exampleTimeOfDay t = nat ((t div 1000) mod 86400)"

definition exampleAdapter :: "string adapter" where
  "exampleAdapter =
     \<lparr>diasendRecordToNightscoutTreatment =
        (\<lambda>record allRecords.
           if rtype record = insulin_bolus
           then (if list_ex (\<lambda>r. rtype r = carb \<and> device r = device record) allRecords
                 then Inr (Some ''Meal Bolus'')
                 else Inl (Error ''no carb record''))
           else Inr (Some ''Carb Correction'')),
      diasendGlucoseRecordToNightscoutEntry =
        (\<lambda>record. \<lparr>date = created_at record, sgv = rvalue record, entry_device = device record\<rparr>),
      updateBasalProfile = updateBasalProfile_spec exampleTimeOfDay\<rparr>"

definition exampleProfileConfig :: profile_config where
  "exampleProfileConfig =
     \<lparr>basal = Some [(0, 1)], others = [''dia'' \<mapsto> ''4'', ''timezone'' \<mapsto> ''UTC'']\<rparr>"

definition exampleSportConfig :: profile_config where
  "exampleSportConfig =
     \<lparr>basal = Some [(0, 1 / 2)], others = [''dia'' \<mapsto> ''3'', ''timezone'' \<mapsto> ''UTC'']\<rparr>"

definition exampleProfile :: profile where
  "exampleProfile =
     \<lparr>defaultProfile = ''Default'',
      store = [''Default'' \<mapsto> exampleProfileConfig, ''Sport'' \<mapsto> exampleSportConfig],
      startDate = ''2022-01-01'', units = ''mg/dl''\<rparr>"

definition exampleData :: "device_data list" where
  "exampleData =
     [\<lparr>dd_device = ''pump'',
       dd_data = [\<lparr>raw_type = glucose, raw_created_at = 5000, raw_value = 100\<rparr>,
                  \<lparr>raw_type = insulin_basal, raw_created_at = 3000, raw_value = 1 / 2\<rparr>,
                  \<lparr>raw_type = insulin_bolus, raw_created_at = 6000, raw_value = 3\<rparr>]\<rparr>]"

definition servicesFor :: "device_data list \<Rightarrow> string services" where
  "servicesFor fetchedData =
     \<lparr>obtainDiasendAccessToken = (\<lambda>clientId clientSecret username password. Inr ''token''),
      getPatientData = (\<lambda>token dFrom dTo. Inr fetchedData),
      reportEntriesToNightscout = (\<lambda>es. Inr es),
      reportTreatmentsToNightscout = (\<lambda>ts. Inr (Some ts)),
      fetchProfile = Inr exampleProfile,
      updateProfile = (\<lambda>p. Inr p),
      treatmentsHandlerSettlesFirst = True\<rparr>"

definition exampleServices :: "string services" where
  "exampleServices = servicesFor exampleData"

definition exampleConfig :: config where
  "exampleConfig =
     \<lparr>cfg_username = Some ''user'', cfg_password = Some ''secret'', cfg_clientId = ''id'',
      cfg_clientSecret = ''cs'', cfg_profileName = Some ''Diasend''\<rparr>"


definition examplePrevious :: patient_record where
  "examplePrevious =
     \<lparr>ref = 3, rtype = insulin_bolus, created_at = 1000, rvalue = 2, device = ''pump''\<rparr>"

definition exampleState :: "string sync_args" where
  "exampleState =
     \<lparr>diasendUsername = None, diasendPassword = None, diasendClientId = None,
      diasendClientSecret = None, dateFrom = Some (Date 0), dateTo = None,
      nightscoutEntriesHandler = None, nightscoutProfileName = None,
      nightscoutTreatmentsHandler = None, previousRecords = Some [examplePrevious],
      nightscoutProfileLoader = None, nightscoutProfileHandler = None\<rparr>"

definition exampleFetched :: "patient_record list" where
  "exampleFetched =
     [\<lparr>ref = 10, rtype = glucose, created_at = 5000, rvalue = 100, device = ''pump''\<rparr>,
      \<lparr>ref = 11, rtype = insulin_basal, created_at = 3000, rvalue = 1 / 2, device = ''pump''\<rparr>,
      \<lparr>ref = 12, rtype = insulin_bolus, created_at = 6000, rvalue = 3, device = ''pump''\<rparr>]"

definition exampleUpdatedProfile :: profile where
  "exampleUpdatedProfile =
     exampleProfile\<lparr>store :=
       [''Default'' \<mapsto> exampleProfileConfig, ''Sport'' \<mapsto> exampleSportConfig,
        ''Diasend'' \<mapsto> exampleProfileConfig\<lparr>basal := Some [(0, 1), (3, 1 / 2)]\<rparr>]\<rparr>"

definition exampleResult :: "string sync_result" where
  "exampleResult =
     \<lparr>treatments = [], profile = exampleUpdatedProfile, latestRecordDate = Some 6000,
      unprocessedRecords =
        [\<lparr>ref = 12, rtype = insulin_bolus, created_at = 6000, rvalue = 3, device = ''pump''\<rparr>]\<rparr>"

definition exampleGlucoseResult :: glucose_result where
  "exampleGlucoseResult =
     \<lparr>entries = [\<lparr>date = 5000, sgv = 100, entry_device = ''pump''\<rparr>],
      entriesLatestRecordDate = Some 5000\<rparr>"

definition exampleBatch :: "patient_record list" where
  "exampleBatch =
     [\<lparr>ref = 1, rtype = carb, created_at = 1000, rvalue = 30, device = ''pump''\<rparr>,
      \<lparr>ref = 2, rtype = insulin_bolus, created_at = 2000, rvalue = 3, device = ''pump''\<rparr>,
      \<lparr>ref = 3, rtype = insulin_bolus, created_at = 3000, rvalue = 1, device = ''pen''\<rparr>,
      \<lparr>ref = 4, rtype = insulin_basal, created_at = 3500, rvalue = 1 / 2, device = ''pump''\<rparr>,
      \<lparr>ref = 5, rtype = carb, created_at = 4000, rvalue = 10, device = ''pump''\<rparr>]"

definition sampleState :: "string option \<Rightarrow> patient_record list option \<Rightarrow> string sync_args" where
  "sampleState name prev =
     \<lparr>diasendUsername = None, diasendPassword = None, diasendClientId = None,
      diasendClientSecret = None, dateFrom = Some (Date 0), dateTo = None,
      nightscoutEntriesHandler = None, nightscoutProfileName = name,
      nightscoutTreatmentsHandler = None, previousRecords = prev,
      nightscoutProfileLoader = None, nightscoutProfileHandler = None\<rparr>"

definition exampleCarb :: patient_record where
  "exampleCarb = \<lparr>ref = 4, rtype = carb, created_at = 500, rvalue = 20, device = ''pump''\<rparr>"

definition exampleBolusData :: "device_data list" where
  "exampleBolusData =
     [\<lparr>dd_device = ''pump'',
       dd_data = [\<lparr>raw_type = insulin_bolus, raw_created_at = 6000, raw_value = 3\<rparr>]\<rparr>]"

definition exampleLateData :: "device_data list" where
  "exampleLateData =
     [\<lparr>dd_device = ''cgm'',
       dd_data = [\<lparr>raw_type = glucose, raw_created_at = 8640000000000000, raw_value = 100\<rparr>]\<rparr>]"

definition exampleHeap :: objheap where
  "exampleHeap =
     \<lparr>cells = [20 \<mapsto> ProfileObj ''Default'' 21 ''2022-01-01'' ''mg/dl'',
               21 \<mapsto> StoreObj [(''Default'', 22), (''Sport'', 23)],
               22 \<mapsto> ConfigObj exampleProfileConfig,
               23 \<mapsto> ConfigObj exampleSportConfig],
      nextAddr = 24\<rparr>"

definition exampleSportUpdatedProfile :: profile where
  "exampleSportUpdatedProfile =
     exampleProfile\<lparr>store :=
       [''Default'' \<mapsto> exampleProfileConfig,
        ''Sport'' \<mapsto> exampleSportConfig\<lparr>basal := Some [(0, 1 / 2), (3, 1 / 2)]\<rparr>]\<rparr>"

text \<open>A profile whose default profile has no entry in the store.\<close>

definition exampleNightProfile :: profile where
  "exampleNightProfile = exampleProfile\<lparr>defaultProfile := ''Night''\<rparr>"

section \<open>Lemmas\<close>

subsection \<open>identifyTreatments\<close>

lemma reduceStep_acc:
  "reduceStep f ctx r acc =
     (fst acc @ fst (reduceStep f ctx r ([], [])), snd acc @ snd (reduceStep f ctx r ([], [])))"
  by (simp add: reduceStep_def split: sum.splits option.splits)

lemma fold_reduceStep_acc:
  "fold (reduceStep f ctx) rs acc =
     (fst acc @ fst (fold (reduceStep f ctx) rs ([], [])),
      snd acc @ snd (fold (reduceStep f ctx) rs ([], [])))"
proof (induction rs arbitrary: acc)
  case Nil
  show ?case by simp
next
  case (Cons r rs)
  let ?s = "reduceStep f ctx r ([], [])"
  let ?F = "\<lambda>a. fold (reduceStep f ctx) rs a"
  have "fold (reduceStep f ctx) (r # rs) acc = ?F (reduceStep f ctx r acc)"
    by simp
  also have "\<dots> = (fst (reduceStep f ctx r acc) @ fst (?F ([], [])),
                    snd (reduceStep f ctx r acc) @ snd (?F ([], [])))"
    by (rule Cons.IH)
  also have "\<dots> = (fst acc @ fst ?s @ fst (?F ([], [])), snd acc @ snd ?s @ snd (?F ([], [])))"
    by (subst (1 2) reduceStep_acc) simp
  also have "(fst ?s @ fst (?F ([], [])), snd ?s @ snd (?F ([], []))) = ?F ?s"
    by (rule Cons.IH [symmetric])
  then have "(fst acc @ fst ?s @ fst (?F ([], [])), snd acc @ snd ?s @ snd (?F ([], []))) =
             (fst acc @ fst (?F ?s), snd acc @ snd (?F ?s))"
    by (metis fst_conv snd_conv)
  finally show ?case by simp
qed

lemma reduceOver_append:
  "reduceOver f ctx (xs @ ys) =
     (fst (reduceOver f ctx xs) @ fst (reduceOver f ctx ys),
      snd (reduceOver f ctx xs) @ snd (reduceOver f ctx ys))"
  unfolding reduceOver_def fold_append comp_def
  by (subst fold_reduceStep_acc) simp

lemma reduceOver_Nil: "reduceOver f ctx [] = ([], [])"
  by (simp add: reduceOver_def)

lemma reduceOver_single:
  "reduceOver f ctx [r] =
     (case f r ctx of Inr (Some t) \<Rightarrow> ([t], []) | Inr None \<Rightarrow> ([], []) | Inl e \<Rightarrow> ([], [r]))"
  by (simp add: reduceOver_def reduceStep_def split: sum.splits option.splits)

lemma reduceOver_Cons:
  "reduceOver f ctx (r # rs) =
     (fst (reduceOver f ctx [r]) @ fst (reduceOver f ctx rs),
      snd (reduceOver f ctx [r]) @ snd (reduceOver f ctx rs))"
  using reduceOver_append [of f ctx "[r]" rs] by simp

lemma identifyTreatments_reduceOver:
  "identifyTreatments f records = reduceOver f (filter isCarbOrBolus records) (filter isCarbOrBolus records)"
  by (simp add: identifyTreatments_def reduceOver_def Let_def)

lemma snd_reduceOver: "snd (reduceOver f ctx rs) = filter (\<lambda>r. isl (f r ctx)) rs"
proof (induction rs)
  case Nil
  show ?case by (simp add: reduceOver_Nil)
next
  case (Cons r rs)
  show ?case
    by (subst reduceOver_Cons) (simp add: Cons.IH reduceOver_single split: sum.splits option.splits)
qed

lemma fst_reduceOver:
  "fst (reduceOver f ctx rs) =
     concat (map (\<lambda>r. case f r ctx of Inr (Some t) \<Rightarrow> [t] | Inr None \<Rightarrow> [] | Inl e \<Rightarrow> []) rs)"
proof (induction rs)
  case Nil
  show ?case by (simp add: reduceOver_Nil)
next
  case (Cons r rs)
  show ?case
    by (subst reduceOver_Cons) (simp add: Cons.IH reduceOver_single split: sum.splits option.splits)
qed

text \<open>
  What \<open>identifyTreatments\<close> does with each carb or bolus record, for every resolver: the
  treatment is appended when the resolver returns one, nothing is appended when it returns
  \<open>undefined\<close>, and the record is appended to \<open>unprocessedRecords\<close> when it throws.
\<close>

lemma identifyTreatments_outcomes:
  "identifyTreatments f records =
     (concat (map (\<lambda>r. case f r (filter isCarbOrBolus records) of
                           Inr (Some t) \<Rightarrow> [t] | Inr None \<Rightarrow> [] | Inl e \<Rightarrow> [])
                (filter isCarbOrBolus records)),
      filter (\<lambda>r. isl (f r (filter isCarbOrBolus records))) (filter isCarbOrBolus records))"
  unfolding identifyTreatments_reduceOver
  by (simp add: prod_eq_iff fst_reduceOver snd_reduceOver)

lemma unprocessed_subset:
  "set (snd (identifyTreatments f records)) \<subseteq> set records"
  unfolding identifyTreatments_reduceOver snd_reduceOver by auto

subsection \<open>Identity, sorting and the latest date\<close>

lemma indexOfFrom_minus1:
  "0 \<le> i \<Longrightarrow> (indexOfFrom i xs r = - 1) = (ref r \<notin> ref ` set xs)"
  by (induction xs arbitrary: i) auto

lemma indexOf_minus1: "(indexOf xs r = - 1) = (ref r \<notin> ref ` set xs)"
  by (simp add: indexOf_def indexOfFrom_minus1)

lemma hd_sortLatestFirst:
  assumes "xs \<noteq> []"
  shows "key (hd (sortLatestFirst key xs)) = Max (key ` set xs)"
proof -
  let ?ys = "sort_key (\<lambda>x. - key x) xs"
  have ne: "?ys \<noteq> []" using assms by (metis length_0_conv length_sort)
  have srt: "sorted (map (\<lambda>x. - key x) ?ys)" by (rule sorted_sort_key)
  have hd_in: "hd ?ys \<in> set xs" using ne by (metis hd_in_set set_sort)
  have "key y \<le> key (hd ?ys)" if "y \<in> set xs" for y
  proof -
    from that have y: "y \<in> set ?ys" by simp
    obtain z zs where zs: "?ys = z # zs" using ne by (cases ?ys) auto
    with srt y show ?thesis by (auto simp: zs)
  qed
  then show ?thesis
    unfolding sortLatestFirst_def using hd_in
    by (intro Max_eqI [symmetric]) auto
qed

lemma latestOf_Max:
  "latestOf records = (if records = [] then None else Some (Max (created_at ` set records)))"
  by (simp add: latestOf_def hd_sortLatestFirst)

lemma latestEntryDate_Max:
  "latestEntryDate es = (if es = [] then None else Some (Max (date ` set es)))"
  by (simp add: latestEntryDate_def hd_sortLatestFirst)

lemma latestOf_mem:
  assumes "latestOf records = Some t"
  shows "t \<in> created_at ` set records"
proof -
  from assms have ne: "records \<noteq> []" by (auto simp: latestOf_def)
  with assms have "t = Max (created_at ` set records)" by (simp add: latestOf_Max)
  moreover have "Max (created_at ` set records) \<in> created_at ` set records"
    using ne by (intro Max_in) auto
  ultimately show ?thesis by simp
qed

subsection \<open>The cycles\<close>

lemma syncData_split:
  "syncDiasendDataToNightscout cfg ad sv now heap args =
     (case fetchFor cfg sv now heap args of
        (cs, Inl e) \<Rightarrow> (cs, Inl e)
      | (cs, Inr fetched) \<Rightarrow>
          (cs @ fst (syncFetched ad (treatmentsHandlerSettlesFirst sv) (profileNameOf cfg args)
                      (orDefault (nightscoutProfileLoader args) (fetchProfile sv))
                      (orDefault (nightscoutTreatmentsHandler args) (reportTreatmentsToNightscout sv))
                      (orDefault (nightscoutProfileHandler args) (updateProfile sv))
                      (orDefault (previousRecords args) []) fetched),
           snd (syncFetched ad (treatmentsHandlerSettlesFirst sv) (profileNameOf cfg args)
                      (orDefault (nightscoutProfileLoader args) (fetchProfile sv))
                      (orDefault (nightscoutTreatmentsHandler args) (reportTreatmentsToNightscout sv))
                      (orDefault (nightscoutProfileHandler args) (updateProfile sv))
                      (orDefault (previousRecords args) []) fetched)))"
  by (simp add: syncDiasendDataToNightscout_def fetchFor_def Let_def split: prod.splits sum.splits)

lemma syncGlucose_split:
  "syncDiasendGlucoseToNightscout cfg ad sv now heap args =
     (case fetchFor cfg sv now heap args of
        (cs, Inl e) \<Rightarrow> (cs, Inl e)
      | (cs, Inr records) \<Rightarrow>
          (let nightscoutEntries =
                 map (diasendGlucoseRecordToNightscoutEntry ad)
                   (filter (\<lambda>record. rtype record = glucose) records)
           in if orDefault (dateFrom args) (newDate (now - 10 * 60 * 1000)) = InvalidDate \<or>
                 orDefault (dateTo args) (newDate now) = InvalidDate
              then (cs, Inl (RangeError ''Invalid time value''))
              else
                (case orDefault (nightscoutEntriesHandler args) (reportEntriesToNightscout sv)
                        nightscoutEntries of
                   Inl e \<Rightarrow> (cs @ [CallEntriesHandler nightscoutEntries], Inl e)
                 | Inr es \<Rightarrow>
                     (cs @ [CallEntriesHandler nightscoutEntries],
                      Inr \<lparr>entries = (if length es > 0 then sortLatestFirst date es else es),
                           entriesLatestRecordDate = latestEntryDate es\<rparr>))))"
  by (simp add: syncDiasendGlucoseToNightscout_def fetchFor_def Let_def
      split: prod.splits sum.splits)

lemma fetch_calls:
  "set (fst (getDiasendPatientData sv heap u p ci cs dF dT)) \<subseteq> {ObtainToken, GetPatientData dF dT}"
  by (auto simp: getDiasendPatientData_def split: sum.splits)

lemma withDeviceData_refs:
  "map ref (withDeviceData heap records) = [heap ..< heap + length (withDeviceData heap records)]"
proof -
  let ?xs = "concat (map (\<lambda>record. map (\<lambda>r. (dd_device record, r)) (dd_data record)) records)"
  have "map ref (withDeviceData heap records) = map fst (enumerate heap ?xs)"
    by (simp add: withDeviceData_def split_def comp_def)
  also have "\<dots> = [heap ..< heap + length ?xs]"
    by (simp add: enumerate_eq_zip)
  also have "length ?xs = length (withDeviceData heap records)"
    by (simp add: withDeviceData_def)
  finally show ?thesis .
qed

lemma fetchFor_refs:
  assumes "fetchFor cfg sv now heap args = (cs0, Inr fetched)"
  shows "map ref fetched = [heap ..< heap + length fetched]"
  using assms withDeviceData_refs [of heap]
  by (auto simp: fetchFor_def getDiasendPatientData_def split: if_splits sum.splits)


lemma syncFetched_result:
  assumes "syncFetched ad tf name loader th ph prev fetched = (cs, Inr res)"
  shows "latestRecordDate res = latestOf (nonGlucose fetched)"
    and "unprocessedRecords res =
           filter (\<lambda>record. indexOf prev record = - 1)
             (snd (identifyTreatments (diasendRecordToNightscoutTreatment ad)
                     (withPrevious prev (nonGlucose fetched))))"
  using assms
  by (auto simp: syncFetched_def Let_def promiseAll_def split: sum.splits option.splits prod.splits)

lemma syncFetched_handler_call:
  assumes "CallProfileHandler p \<in> set (fst (syncFetched ad tf name loader th ph prev fetched))"
  shows "\<exists>existing c. loader = Inr existing \<and> existingProfileConfigOf name existing = Some c \<and>
           p = updatedProfileOf name existing c
                 (updateBasalProfile ad (orDefault (basal c) [])
                    (basalRecordsOf (withPrevious prev (nonGlucose fetched))))"
  using assms
  by (auto simp: syncFetched_def Let_def promiseAll_def split: sum.splits option.splits prod.splits)

lemma syncFetched_calls_Inr:
  assumes "syncFetched ad tf name loader th ph prev fetched = (cs, Inr res)"
  shows "\<exists>existing c. loader = Inr existing \<and> existingProfileConfigOf name existing = Some c \<and>
           cs = [CallProfileLoader,
                 CallTreatmentsHandler
                   (fst (identifyTreatments (diasendRecordToNightscoutTreatment ad)
                           (withPrevious prev (nonGlucose fetched)))),
                 CallProfileHandler
                   (updatedProfileOf name existing c
                      (updateBasalProfile ad (orDefault (basal c) [])
                         (basalRecordsOf (withPrevious prev (nonGlucose fetched)))))]"
  using assms
  by (auto simp: syncFetched_def Let_def promiseAll_def split: sum.splits option.splits prod.splits)

lemma syncData_Inr:
  assumes "syncDiasendDataToNightscout cfg ad sv now heap args = (cs, Inr res)"
  shows "\<exists>cs0 fetched cs1.
           fetchFor cfg sv now heap args = (cs0, Inr fetched) \<and>
           syncFetched ad (treatmentsHandlerSettlesFirst sv) (profileNameOf cfg args)
             (orDefault (nightscoutProfileLoader args) (fetchProfile sv))
             (orDefault (nightscoutTreatmentsHandler args) (reportTreatmentsToNightscout sv))
             (orDefault (nightscoutProfileHandler args) (updateProfile sv))
             (orDefault (previousRecords args) []) fetched = (cs1, Inr res) \<and>
           cs = cs0 @ cs1"
  using assms unfolding syncData_split
  by (auto split: prod.splits sum.splits simp: prod_eq_iff)

lemma syncData_handler_call:
  assumes "syncDiasendDataToNightscout cfg ad sv now heap args = (cs, r)"
    and "CallProfileHandler p \<in> set cs"
  shows "\<exists>cs0 fetched.
           fetchFor cfg sv now heap args = (cs0, Inr fetched) \<and>
           CallProfileHandler p \<in> set (fst (syncFetched ad (treatmentsHandlerSettlesFirst sv) (profileNameOf cfg args)
             (orDefault (nightscoutProfileLoader args) (fetchProfile sv))
             (orDefault (nightscoutTreatmentsHandler args) (reportTreatmentsToNightscout sv))
             (orDefault (nightscoutProfileHandler args) (updateProfile sv))
             (orDefault (previousRecords args) []) fetched))"
proof -
  obtain cs0 r0 where f: "fetchFor cfg sv now heap args = (cs0, r0)"
    by (cases "fetchFor cfg sv now heap args")
  have sub: "set cs0 \<subseteq> {ObtainToken, GetPatientData (orDefault (dateFrom args) (newDate (now - 10 * 60 * 1000)))
                             (orDefault (dateTo args) (newDate now))}"
    using fetch_calls [of sv heap _ _ _ _ "orDefault (dateFrom args) (newDate (now - 10 * 60 * 1000))"
        "orDefault (dateTo args) (newDate now)"] f
    unfolding fetchFor_def by (metis fst_conv)
  then have no: "CallProfileHandler p \<notin> set cs0" by auto
  show ?thesis
  proof (cases r0)
    case (Inl e)
    with assms f no show ?thesis by (simp add: syncData_split)
  next
    case (Inr fetched)
    with assms f no show ?thesis by (auto simp: syncData_split)
  qed
qed

lemma sortLatestFirst_if:
  "(if es \<noteq> [] then sortLatestFirst key es else es) = sortLatestFirst key es"
  by (simp add: sortLatestFirst_def)

lemma syncGlucose_latest:
  assumes "syncDiasendGlucoseToNightscout cfg ad sv now heap state = (cs, Inr gres)"
  shows "entriesLatestRecordDate gres =
           (if entries gres = [] then None else Some (Max (date ` set (entries gres))))"
proof -
  have "\<exists>es. entries gres = sortLatestFirst date es \<and>
             entriesLatestRecordDate gres = latestEntryDate es"
    using assms
    by (auto simp: syncDiasendGlucoseToNightscout_def Let_def sortLatestFirst_if
        split: prod.splits sum.splits if_splits)
  then obtain es where e: "entries gres = sortLatestFirst date es"
    and l: "entriesLatestRecordDate gres = latestEntryDate es"
    by blast
  have s: "set (entries gres) = set es"
    unfolding e sortLatestFirst_def by simp
  then have "(entries gres = []) = (es = [])"
    by (metis set_empty)
  with s show ?thesis
    unfolding l latestEntryDate_Max by simp
qed

lemma state_dateTo: "state\<lparr>dateTo := None\<rparr>\<lparr>dateTo := dateTo state\<rparr> = (state :: 't sync_args)"
  by simp

lemma treatmentsStep_result:
  assumes "syncDiasendDataToNightscout cfg ad sv now heap state = (cs, Inr res)"
  shows "treatmentsStep cfg ad sv now heap state =
           (cs, Inr (state\<lparr>dateTo := None,
                           dateFrom := (case latestRecordDate res of
                                          Some latest \<Rightarrow> Some (addSecond (newDate latest))
                                        | None \<Rightarrow> dateFrom state),
                           previousRecords := Some (unprocessedRecords res)\<rparr>))"
  using assms by (simp add: treatmentsStep_def Let_def split: option.splits)

lemma entriesStep_result:
  assumes "syncDiasendGlucoseToNightscout cfg ad sv now heap state = (cs, Inr res)"
  shows "entriesStep cfg ad sv now heap state =
           (cs, Inr (state\<lparr>dateTo := None,
                           dateFrom := (case entriesLatestRecordDate res of
                                          Some latest \<Rightarrow> Some (addSecond (newDate latest))
                                        | None \<Rightarrow> dateFrom state)\<rparr>))"
  using assms by (simp add: entriesStep_def Let_def split: option.splits)

subsection \<open>The basal merge modelled from the spec\<close>

lemma fold_overridePair:
  "fold overridePair ps e = filter (\<lambda>old. fst old \<notin> fst ` set ps) e @ fold overridePair ps []"
proof (induction ps arbitrary: e)
  case Nil
  show ?case by simp
next
  case (Cons p ps)
  have "fold overridePair (p # ps) e = fold overridePair ps (overridePair p e)" by simp
  also have "\<dots> = filter (\<lambda>old. fst old \<notin> fst ` set ps) (overridePair p e) @ fold overridePair ps []"
    by (rule Cons.IH)
  also have "\<dots> = filter (\<lambda>old. fst old \<notin> fst ` set (p # ps)) e @
                    (filter (\<lambda>old. fst old \<notin> fst ` set ps) [p] @ fold overridePair ps [])"
    by (auto simp: overridePair_def intro: filter_cong)
  also have "filter (\<lambda>old. fst old \<notin> fst ` set ps) [p] @ fold overridePair ps [] =
             fold overridePair ps (overridePair p [])"
    by (subst (2) Cons.IH) (simp add: overridePair_def)
  finally show ?case by simp
qed

lemma keys_overridePair: "fst ` set (overridePair p F) = insert (fst p) (fst ` set F)"
  by (force simp: overridePair_def)

lemma keys_fold_overridePair_Nil: "fst ` set (fold overridePair ps []) = fst ` set ps"
proof (induction ps rule: rev_induct)
  case Nil
  show ?case by simp
next
  case (snoc p ps)
  have "fst ` set (fold overridePair (ps @ [p]) []) =
        insert (fst p) (fst ` set (fold overridePair ps []))"
    by (simp add: keys_overridePair)
  then show ?case
    unfolding snoc.IH by simp
qed

lemma distinct_fold_overridePair_Nil: "distinct (map fst (fold overridePair ps []))"
proof (induction ps rule: rev_induct)
  case Nil
  show ?case by simp
next
  case (snoc p ps)
  then show ?case by (auto simp: overridePair_def distinct_map_filter)
qed

lemma sort_key_sorted_prefix:
  "sort_key f (sort_key f xs @ ys) = sort_key f (xs @ ys)"
proof (rule properties_for_sort_key)
  show "mset (sort_key f (xs @ ys)) = mset (sort_key f xs @ ys)" by simp
  show "sorted (map f (sort_key f (xs @ ys)))" by (rule sorted_sort_key)
  fix k
  have "filter (\<lambda>x. f x = f k) (sort_key f (xs @ ys)) = filter (\<lambda>x. f x = f k) (sort_key f xs @ ys)"
    by (simp add: sort_key_stable)
  then show "filter (\<lambda>x. f k = f x) (sort_key f (xs @ ys)) = filter (\<lambda>x. f k = f x) (sort_key f xs @ ys)"
    by (simp add: eq_commute)
qed

lemma fold_overridePair_distinct:
  "distinct (map fst xs) \<Longrightarrow> fold overridePair xs [] = xs"
proof (induction xs rule: rev_induct)
  case Nil
  show ?case by simp
next
  case (snoc x xs)
  then have a: "fold overridePair xs [] = xs" by simp
  have "fst x \<notin> fst ` set xs"
    using snoc.prems by simp
  then have "\<forall>old \<in> set xs. fst old \<noteq> fst x"
    by (metis imageI)
  then have b: "filter (\<lambda>old. fst old \<noteq> fst x) xs = xs"
    by (simp add: filter_id_conv)
  have "fold overridePair (xs @ [x]) [] = overridePair x (fold overridePair xs [])"
    by simp
  also have "\<dots> = xs @ [x]"
    unfolding a overridePair_def b by (rule refl)
  finally show ?case .
qed

lemma fold_overridePair_sort:
  "distinct (map fst xs) \<Longrightarrow> fold overridePair (sort_key fst xs) [] = sort_key fst xs"
proof (rule fold_overridePair_distinct)
  assume "distinct (map fst xs)"
  moreover have "mset (map fst (sort_key fst xs)) = mset (map fst xs)" by simp
  ultimately show "distinct (map fst (sort_key fst xs))"
    by (metis mset_eq_imp_distinct_iff)
qed

lemma updateBasalProfile_spec_eq:
  "updateBasalProfile_spec tod e rs =
     sort_key fst (filter (\<lambda>old. fst old \<notin> fst ` set (map (basalRecordToPair tod) rs))
                     (fold overridePair e []) @
                   fold overridePair (map (basalRecordToPair tod) rs) [])"
  unfolding updateBasalProfile_spec_def fold_append comp_def
  by (subst fold_overridePair) (rule refl)

lemma updateBasalProfile_spec_distinct:
  "distinct (map fst (updateBasalProfile_spec tod e rs))"
proof -
  let ?ps = "map (basalRecordToPair tod) rs"
  let ?keep = "\<lambda>old::time_based_value. fst old \<notin> fst ` set ?ps"
  let ?D = "fold overridePair ?ps []"
  let ?E = "fold overridePair e []"
  have "distinct (map fst (filter ?keep ?E @ ?D))"
    using distinct_fold_overridePair_Nil [of e] distinct_fold_overridePair_Nil [of ?ps]
      keys_fold_overridePair_Nil [of ?ps]
    by (auto simp: distinct_map_filter)
  moreover have "mset (map fst (sort_key fst (filter ?keep ?E @ ?D))) = mset (map fst (filter ?keep ?E @ ?D))"
    by simp
  ultimately have "distinct (map fst (sort_key fst (filter ?keep ?E @ ?D)))"
    by (metis mset_eq_imp_distinct_iff)
  then show ?thesis
    unfolding updateBasalProfile_spec_eq .
qed

lemma updateBasalProfile_spec_sorted:
  "sorted (map fst (updateBasalProfile_spec tod e rs))"
  unfolding updateBasalProfile_spec_def by (rule sorted_sort_key)

lemma updateBasalProfile_spec_idem:
  "updateBasalProfile_spec tod (updateBasalProfile_spec tod e rs) rs = updateBasalProfile_spec tod e rs"
proof -
  let ?ps = "map (basalRecordToPair tod) rs"
  let ?keep = "\<lambda>old::time_based_value. fst old \<notin> fst ` set ?ps"
  let ?D = "fold overridePair ?ps []"
  let ?E = "fold overridePair e []"
  let ?X = "filter ?keep ?E @ ?D"
  have D: "filter ?keep ?D = []"
    using keys_fold_overridePair_Nil [of ?ps] by (auto simp: filter_empty_conv)
  have "filter ?keep ?X = filter ?keep ?E"
    unfolding filter_append D by simp
  then have F: "filter ?keep (sort_key fst ?X) = sort_key fst (filter ?keep ?E)"
    unfolding filter_sort by (rule arg_cong)
  have dX: "distinct (map fst ?X)"
    using distinct_fold_overridePair_Nil [of e] distinct_fold_overridePair_Nil [of ?ps]
      keys_fold_overridePair_Nil [of ?ps]
    by (auto simp: distinct_map_filter)
  have G: "fold overridePair (sort_key fst ?X) [] = sort_key fst ?X"
    using dX by (rule fold_overridePair_sort)
  have "updateBasalProfile_spec tod (updateBasalProfile_spec tod e rs) rs =
        sort_key fst (filter ?keep (fold overridePair (sort_key fst ?X) []) @ ?D)"
    unfolding updateBasalProfile_spec_eq [of tod e rs]
    by (rule updateBasalProfile_spec_eq)
  also have "\<dots> = sort_key fst (sort_key fst (filter ?keep ?E) @ ?D)"
    unfolding G F by (rule refl)
  also have "\<dots> = sort_key fst ?X"
    by (rule sort_key_sorted_prefix)
  also have "\<dots> = updateBasalProfile_spec tod e rs"
    by (rule updateBasalProfile_spec_eq [symmetric])
  finally show ?thesis .
qed

subsection \<open>The objects of the profile update\<close>

lemma alloc_cells:
  "alloc h ob = (h', a) \<Longrightarrow>
     a = nextAddr h \<and> nextAddr h' = Suc (nextAddr h) \<and> cells h' = (cells h)(nextAddr h \<mapsto> ob)"
  by (auto simp: alloc_def)

lemma updateProfileOnHeap_frame:
  assumes "updateProfileOnHeap merge h name pa recs = Inr (h', np)"
  shows "\<forall>a < nextAddr h. cells h' a = cells h a"
  using assms
  by (auto simp: updateProfileOnHeap_def alloc_def Let_def
      split: option.splits obj.splits if_splits)

lemma storeAt_wf:
  assumes "list_all (\<lambda>(k, c). configAt h c \<noteq> None) ents"
  shows "dom (storeAt h ents) = dom (map_of ents)"
proof -
  have "configAt h a \<noteq> None" if "map_of ents k = Some a" for k a
    using assms map_of_SomeD [OF that] by (auto simp: list_all_iff)
  then show ?thesis
    by (auto simp: storeAt_def dom_def split: option.splits)
qed

lemma readMember_jsGet:
  assumes "list_all (\<lambda>(k, c). configAt h c \<noteq> None) ents"
  shows "readMember h ents k = jsGet (storeAt h ents) k"
proof (cases "map_of ents k")
  case None
  then show ?thesis by (simp add: readMember_def jsGet_def storeAt_def)
next
  case (Some a)
  with assms map_of_SomeD [OF Some] obtain c where "configAt h a = Some c"
    by (auto simp: list_all_iff)
  with Some show ?thesis
    by (simp add: readMember_def jsGet_def storeAt_def)
qed

lemma jsIn_storeAt:
  assumes "list_all (\<lambda>(k, c). configAt h c \<noteq> None) ents"
  shows "jsIn name (storeAt h ents) = jsIn name (map_of ents)"
  by (simp add: jsIn_def storeAt_wf [OF assms])

lemma set_alist_update:
  "set (AList.update k v al) \<subseteq> insert (k, v) (set al)"
  by (induct al) auto

lemma configAt_old:
  assumes "dom (cells h) \<subseteq> {..<nextAddr h}"
    and "\<forall>a < nextAddr h. cells h' a = cells h a"
    and "configAt h a \<noteq> None"
  shows "configAt h' a = configAt h a"
proof -
  from assms(3) have "a \<in> dom (cells h)"
    by (auto simp: configAt_def split: option.splits)
  with assms(1) have "a < nextAddr h" by auto
  with assms(2) show ?thesis by (simp add: configAt_def)
qed

lemma updateProfileOnHeap_refines:
  assumes p: "profileAt h pa = Some existing"
    and d: "dom (cells h) \<subseteq> {..<nextAddr h}"
    and c: "existingProfileConfigOf name existing = Some c"
  shows "\<exists>h' np. updateProfileOnHeap merge h name pa recs = Inr (h', np) \<and>
           profileAt h' np =
             Some (updatedProfileOf name existing c (merge (orDefault (basal c) []) recs)) \<and>
           (\<forall>a < nextAddr h. cells h' a = cells h a) \<and>
           profileAt h' pa = Some existing"
proof -
  from p obtain dn sa sd un ents where
    po: "cells h pa = Some (ProfileObj dn sa sd un)" and
    so: "cells h sa = Some (StoreObj ents)" and
    wf: "list_all (\<lambda>(k, c). configAt h c \<noteq> None) ents" and
    ex: "existing = \<lparr>defaultProfile = dn, store = storeAt h ents, startDate = sd, units = un\<rparr>"
    by (auto simp: profileAt_def split: option.splits obj.splits if_splits)
  let ?n = "nextAddr h"
  let ?c' = "c\<lparr>basal := Some (merge (orDefault (basal c) []) recs)\<rparr>"
  let ?ents' = "AList.update name ?n ents"
  let ?h' = "h\<lparr>cells := (cells h)(?n \<mapsto> ConfigObj ?c', Suc ?n \<mapsto> StoreObj ?ents',
                         Suc (Suc ?n) \<mapsto> ProfileObj dn (Suc ?n) sd un),
                nextAddr := Suc (Suc (Suc ?n))\<rparr>"
  have member: "(if jsIn name (map_of ents) then readMember h ents name
                 else readMember h ents dn) = Some c"
    using c unfolding existingProfileConfigOf_def ex
    by (auto simp: readMember_jsGet [OF wf] jsIn_storeAt [OF wf] split: if_splits)
  have run: "updateProfileOnHeap merge h name pa recs = Inr (?h', Suc (Suc ?n))"
    unfolding updateProfileOnHeap_def by (simp add: po so member alloc_def Let_def)
  have frame: "\<forall>a < ?n. cells ?h' a = cells h a"
    by simp
  have old: "configAt ?h' a = configAt h a" if "configAt h a \<noteq> None" for a
    using configAt_old [OF d frame that] .
  have pa_lt: "pa < ?n" and sa_lt: "sa < ?n"
    using d po so by auto
  have new: "configAt ?h' ?n = Some ?c'"
    by (simp add: configAt_def)
  have in_entries: "configAt h a \<noteq> None" if "(k, a) \<in> set ents" for k a
    using wf that by (auto simp: list_all_iff)
  have st': "storeAt ?h' ?ents' = (storeAt h ents)(name \<mapsto> ?c')"
  proof
    fix k
    show "storeAt ?h' ?ents' k = ((storeAt h ents)(name \<mapsto> ?c')) k"
    proof (cases "k = name")
      case True
      then show ?thesis
        using new by (simp add: storeAt_def update_conv')
    next
      case False
      show ?thesis
      proof (cases "map_of ents k")
        case None
        with False show ?thesis by (simp add: storeAt_def update_conv')
      next
        case (Some a)
        from in_entries [OF map_of_SomeD [OF Some]] have "configAt ?h' a = configAt h a"
          by (rule old)
        with False Some show ?thesis by (simp add: storeAt_def update_conv')
      qed
    qed
  qed
  have wf': "list_all (\<lambda>(k, c). configAt ?h' c \<noteq> None) ?ents'"
  proof -
    have "configAt ?h' a \<noteq> None" if "(k, a) \<in> set ?ents'" for k a
    proof -
      have "(k, a) = (name, ?n) \<or> (k, a) \<in> set ents"
        using that set_alist_update [of name ?n ents] by auto
      then show ?thesis
      proof
        assume "(k, a) = (name, ?n)"
        with new show ?thesis by simp
      next
        assume "(k, a) \<in> set ents"
        from in_entries [OF this] old [OF in_entries [OF this]] show ?thesis by simp
      qed
    qed
    then show ?thesis by (auto simp: list_all_iff)
  qed
  have wf_old: "list_all (\<lambda>(k, c). configAt ?h' c \<noteq> None) ents"
    using in_entries old by (auto simp: list_all_iff)
  have st_old: "storeAt ?h' ents = storeAt h ents"
  proof
    fix k
    show "storeAt ?h' ents k = storeAt h ents k"
    proof (cases "map_of ents k")
      case None
      then show ?thesis by (simp add: storeAt_def)
    next
      case (Some a)
      from old [OF in_entries [OF map_of_SomeD [OF Some]]] Some show ?thesis
        by (simp add: storeAt_def)
    qed
  qed
  have pnew: "profileAt ?h' (Suc (Suc ?n)) =
      Some (updatedProfileOf name existing c (merge (orDefault (basal c) []) recs))"
    using wf' by (simp add: profileAt_def st' updatedProfileOf_def ex)
  have pold: "profileAt ?h' pa = Some existing"
    using pa_lt sa_lt po so wf_old by (simp add: profileAt_def st_old ex)
  show ?thesis
    using run pnew frame pold by blast
qed

lemma updateProfileOnHeap_fails:
  assumes p: "profileAt h pa = Some existing"
    and c: "existingProfileConfigOf name existing = None"
  shows "isl (updateProfileOnHeap merge h name pa recs)"
proof -
  from p obtain dn sa sd un ents where
    po: "cells h pa = Some (ProfileObj dn sa sd un)" and
    so: "cells h sa = Some (StoreObj ents)" and
    wf: "list_all (\<lambda>(k, c). configAt h c \<noteq> None) ents" and
    ex: "existing = \<lparr>defaultProfile = dn, store = storeAt h ents, startDate = sd, units = un\<rparr>"
    by (auto simp: profileAt_def split: option.splits obj.splits if_splits)
  have member: "(if jsIn name (map_of ents) then readMember h ents name
                 else readMember h ents dn) = None"
    using c unfolding existingProfileConfigOf_def ex
    by (auto simp: readMember_jsGet [OF wf] jsIn_storeAt [OF wf] split: if_splits)
  show ?thesis
    unfolding updateProfileOnHeap_def by (simp add: po so member)
qed

subsection \<open>The profile name and the calls of a cycle\<close>

lemma addSecond_newDate:
  "- maxTime \<le> t \<Longrightarrow> t + 1000 \<le> maxTime \<Longrightarrow> addSecond (newDate t) = Date (t + 1000)"
  by (simp add: addSecond_def newDate_def)

lemma existingProfileConfigOf_own:
  "store existing name = Some c \<Longrightarrow> existingProfileConfigOf name existing = Some c"
  by (auto simp: existingProfileConfigOf_def jsIn_def jsGet_def)

lemma existingProfileConfigOf_default:
  "\<not> jsIn name (store existing) \<Longrightarrow> store existing (defaultProfile existing) = Some c \<Longrightarrow>
     existingProfileConfigOf name existing = Some c"
  by (simp add: existingProfileConfigOf_def jsGet_def)

lemma syncFetched_calls:
  assumes "existingProfileConfigOf name existing = Some c"
  shows "fst (syncFetched ad tf name (Inr existing) th ph prev fetched) =
     [CallProfileLoader,
      CallTreatmentsHandler
        (fst (identifyTreatments (diasendRecordToNightscoutTreatment ad)
                (withPrevious prev (nonGlucose fetched)))),
      CallProfileHandler
        (updatedProfileOf name existing c
           (updateBasalProfile ad (orDefault (basal c) [])
              (basalRecordsOf (withPrevious prev (nonGlucose fetched)))))]"
  using assms
  by (simp add: syncFetched_def Let_def split: sum.splits prod.splits)

subsection \<open>The sample inputs, evaluated\<close>

lemma exampleState_sample: "exampleState = sampleState None (Some [examplePrevious])"
  by (simp add: exampleState_def sampleState_def)

lemma sample_fetch:
  "fetchFor exampleConfig (servicesFor fetchedData) 900000 heap (sampleState name prev) =
     ([ObtainToken, GetPatientData (Date 0) (Date 900000)], Inr (withDeviceData heap fetchedData))"
  by (simp add: fetchFor_def getDiasendPatientData_def exampleConfig_def servicesFor_def
      sampleState_def falsy_def orDefault_def newDate_def maxTime_def)

lemma syncFetched_echo:
  assumes "existingProfileConfigOf name existing = Some c"
  shows "syncFetched ad tf name (Inr existing) (\<lambda>ts. Inr (Some ts)) (\<lambda>p. Inr p) prev fetched =
     ([CallProfileLoader,
       CallTreatmentsHandler
         (fst (identifyTreatments (diasendRecordToNightscoutTreatment ad)
                 (withPrevious prev (nonGlucose fetched)))),
       CallProfileHandler
         (updatedProfileOf name existing c
            (updateBasalProfile ad (orDefault (basal c) [])
               (basalRecordsOf (withPrevious prev (nonGlucose fetched)))))],
      Inr \<lparr>treatments =
             fst (identifyTreatments (diasendRecordToNightscoutTreatment ad)
                    (withPrevious prev (nonGlucose fetched))),
           profile =
             updatedProfileOf name existing c
               (updateBasalProfile ad (orDefault (basal c) [])
                  (basalRecordsOf (withPrevious prev (nonGlucose fetched)))),
           latestRecordDate = latestOf (nonGlucose fetched),
           unprocessedRecords =
             filter (\<lambda>record. indexOf prev record = - 1)
               (snd (identifyTreatments (diasendRecordToNightscoutTreatment ad)
                       (withPrevious prev (nonGlucose fetched))))\<rparr>)"
  using assms by (simp add: syncFetched_def Let_def promiseAll_def orDefault_def)

lemma sample_cycle:
  assumes "existingProfileConfigOf (orDefault name ''Diasend'') exampleProfile = Some c"
  shows "syncDiasendDataToNightscout exampleConfig ad (servicesFor fetchedData) 900000 heap
           (sampleState name prev) =
     ([ObtainToken, GetPatientData (Date 0) (Date 900000), CallProfileLoader,
       CallTreatmentsHandler
         (fst (identifyTreatments (diasendRecordToNightscoutTreatment ad)
                 (withPrevious (orDefault prev []) (nonGlucose (withDeviceData heap fetchedData))))),
       CallProfileHandler
         (updatedProfileOf (orDefault name ''Diasend'') exampleProfile c
            (updateBasalProfile ad (orDefault (basal c) [])
               (basalRecordsOf (withPrevious (orDefault prev [])
                  (nonGlucose (withDeviceData heap fetchedData))))))],
      Inr \<lparr>treatments =
             fst (identifyTreatments (diasendRecordToNightscoutTreatment ad)
                    (withPrevious (orDefault prev []) (nonGlucose (withDeviceData heap fetchedData)))),
           profile =
             updatedProfileOf (orDefault name ''Diasend'') exampleProfile c
               (updateBasalProfile ad (orDefault (basal c) [])
                  (basalRecordsOf (withPrevious (orDefault prev [])
                     (nonGlucose (withDeviceData heap fetchedData))))),
           latestRecordDate = latestOf (nonGlucose (withDeviceData heap fetchedData)),
           unprocessedRecords =
             filter (\<lambda>record. indexOf (orDefault prev []) record = - 1)
               (snd (identifyTreatments (diasendRecordToNightscoutTreatment ad)
                       (withPrevious (orDefault prev [])
                          (nonGlucose (withDeviceData heap fetchedData)))))\<rparr>)"
proof -
  have n: "profileNameOf exampleConfig (sampleState name prev) = orDefault name ''Diasend''"
    by (cases name) (simp_all add: profileNameOf_def exampleConfig_def sampleState_def orDefault_def)
  have b: "orDefault (nightscoutProfileLoader (sampleState name prev))
             (fetchProfile (servicesFor fetchedData)) = Inr exampleProfile"
      "orDefault (nightscoutTreatmentsHandler (sampleState name prev))
         (reportTreatmentsToNightscout (servicesFor fetchedData)) = (\<lambda>ts. Inr (Some ts))"
      "orDefault (nightscoutProfileHandler (sampleState name prev))
         (updateProfile (servicesFor fetchedData)) = (\<lambda>p. Inr p)"
      "orDefault (previousRecords (sampleState name prev)) [] = orDefault prev []"
    by (simp_all add: sampleState_def servicesFor_def orDefault_def)
  show ?thesis
    unfolding syncData_split sample_fetch n b
    by (simp add: syncFetched_echo [OF assms])
qed

lemma sample_glucose_cycle:
  "syncDiasendGlucoseToNightscout exampleConfig ad (servicesFor fetchedData) 900000 heap
           (sampleState name prev) =
     ([ObtainToken, GetPatientData (Date 0) (Date 900000),
       CallEntriesHandler
         (map (diasendGlucoseRecordToNightscoutEntry ad)
            (filter (\<lambda>record. rtype record = glucose) (withDeviceData heap fetchedData)))],
      Inr \<lparr>entries =
             sortLatestFirst date
               (map (diasendGlucoseRecordToNightscoutEntry ad)
                  (filter (\<lambda>record. rtype record = glucose) (withDeviceData heap fetchedData))),
           entriesLatestRecordDate =
             latestEntryDate
               (map (diasendGlucoseRecordToNightscoutEntry ad)
                  (filter (\<lambda>record. rtype record = glucose) (withDeviceData heap fetchedData)))\<rparr>)"
proof -
  have b: "orDefault (nightscoutEntriesHandler (sampleState name prev))
             (reportEntriesToNightscout (servicesFor fetchedData)) = (\<lambda>es. Inr es)"
      "orDefault (dateFrom (sampleState name prev)) (newDate (900000 - 10 * 60 * 1000)) = Date 0"
      "orDefault (dateTo (sampleState name prev)) (newDate 900000) = Date 900000"
    by (simp_all add: sampleState_def servicesFor_def orDefault_def newDate_def maxTime_def)
  show ?thesis
    unfolding syncGlucose_split sample_fetch b
    by (simp add: Let_def sortLatestFirst_if)
qed

lemma sample_existing:
  "existingProfileConfigOf ''Diasend'' exampleProfile = Some exampleProfileConfig"
  "existingProfileConfigOf ''Sport'' exampleProfile = Some exampleSportConfig"
  "existingProfileConfigOf ''toString'' exampleProfile = Some inheritedMember"
  by (simp_all add: existingProfileConfigOf_def jsIn_def jsGet_def objectPrototypeMembers_def
      exampleProfile_def)

lemma sample_fetched:
  "withDeviceData 10 exampleData = exampleFetched"
  "withDeviceData 10 [] = []"
  "withDeviceData 10 exampleBolusData =
     [\<lparr>ref = 10, rtype = insulin_bolus, created_at = 6000, rvalue = 3, device = ''pump''\<rparr>]"
  "withDeviceData 10 exampleLateData =
     [\<lparr>ref = 10, rtype = glucose, created_at = 8640000000000000, rvalue = 100, device = ''cgm''\<rparr>]"
  by (simp_all add: withDeviceData_def exampleData_def exampleFetched_def exampleBolusData_def
      exampleLateData_def)

lemma sample_records:
  "withPrevious [examplePrevious] (nonGlucose exampleFetched) =
     [examplePrevious,
      \<lparr>ref = 12, rtype = insulin_bolus, created_at = 6000, rvalue = 3, device = ''pump''\<rparr>,
      \<lparr>ref = 11, rtype = insulin_basal, created_at = 3000, rvalue = 1 / 2, device = ''pump''\<rparr>]"
  "latestOf (nonGlucose exampleFetched) = Some 6000"
  by (simp_all add: withPrevious_def nonGlucose_def exampleFetched_def sortLatestFirst_def
      latestOf_def)

lemma sample_identified:
  "identifyTreatments (diasendRecordToNightscoutTreatment exampleAdapter)
     [examplePrevious,
      \<lparr>ref = 12, rtype = insulin_bolus, created_at = 6000, rvalue = 3, device = ''pump''\<rparr>,
      \<lparr>ref = 11, rtype = insulin_basal, created_at = 3000, rvalue = 1 / 2, device = ''pump''\<rparr>] =
   ([], [examplePrevious,
         \<lparr>ref = 12, rtype = insulin_bolus, created_at = 6000, rvalue = 3, device = ''pump''\<rparr>])"
  by (simp add: identifyTreatments_def isCarbOrBolus_def reduceStep_def exampleAdapter_def
      examplePrevious_def)

lemma sample_basalRecords:
  "basalRecordsOf
     [examplePrevious,
      \<lparr>ref = 12, rtype = insulin_bolus, created_at = 6000, rvalue = 3, device = ''pump''\<rparr>,
      \<lparr>ref = 11, rtype = insulin_basal, created_at = 3000, rvalue = 1 / 2, device = ''pump''\<rparr>] =
   [\<lparr>ref = 11, rtype = insulin_basal, created_at = 3000, rvalue = 1 / 2, device = ''pump''\<rparr>]"
  by (simp add: basalRecordsOf_def examplePrevious_def)

lemma sample_unprocessed:
  "filter (\<lambda>record. indexOf [examplePrevious] record = - 1)
     [examplePrevious,
      \<lparr>ref = 12, rtype = insulin_bolus, created_at = 6000, rvalue = 3, device = ''pump''\<rparr>] =
   [\<lparr>ref = 12, rtype = insulin_bolus, created_at = 6000, rvalue = 3, device = ''pump''\<rparr>]"
  by (simp add: indexOf_def examplePrevious_def)

lemma sample_merges:
  "updateBasalProfile exampleAdapter [(0, 1)]
     [\<lparr>ref = 11, rtype = insulin_basal, created_at = 3000, rvalue = 1 / 2, device = ''pump''\<rparr>] =
   [(0, 1), (3, 1 / 2)]"
  "updateBasalProfile exampleAdapter [(0, 1 / 2)]
     [\<lparr>ref = 11, rtype = insulin_basal, created_at = 3000, rvalue = 1 / 2, device = ''pump''\<rparr>] =
   [(0, 1 / 2), (3, 1 / 2)]"
  "updateBasalProfile exampleAdapter []
     [\<lparr>ref = 11, rtype = insulin_basal, created_at = 3000, rvalue = 1 / 2, device = ''pump''\<rparr>] =
   [(3, 1 / 2)]"
  "updateBasalProfile exampleAdapter [(0, 1)] [] = [(0, 1)]"
  by (simp_all add: exampleAdapter_def updateBasalProfile_spec_def basalRecordToPair_def
      overridePair_def exampleTimeOfDay_def)

lemma example_merge:
  "updateBasalProfile_spec exampleTimeOfDay [(0, 1)]
     [\<lparr>ref = 11, rtype = insulin_basal, created_at = 3000, rvalue = 1 / 2, device = ''pump''\<rparr>] =
   [(0, 1), (3, 1 / 2)]"
  by (simp add: updateBasalProfile_spec_def basalRecordToPair_def overridePair_def
      exampleTimeOfDay_def)

lemma example_fetch:
  "fetchFor exampleConfig exampleServices 900000 10 exampleState =
     ([ObtainToken, GetPatientData (Date 0) (Date 900000)], Inr exampleFetched)"
  unfolding exampleServices_def exampleState_sample sample_fetch sample_fetched ..

lemma example_profileName: "profileNameOf exampleConfig exampleState = ''Diasend''"
  by (simp add: profileNameOf_def exampleConfig_def exampleState_def orDefault_def)

lemma example_loader:
  "orDefault (nightscoutProfileLoader exampleState) (fetchProfile exampleServices) = Inr exampleProfile"
  by (simp add: exampleState_def exampleServices_def servicesFor_def orDefault_def)

lemma example_handler_call:
  "CallProfileHandler exampleUpdatedProfile \<in>
     set [ObtainToken, GetPatientData (Date 0) (Date 900000), CallProfileLoader,
          CallTreatmentsHandler [], CallProfileHandler exampleUpdatedProfile :: string call]"
  by simp

lemma example_updatedProfile:
  "updatedProfileOf ''Diasend'' exampleProfile exampleProfileConfig [(0, 1), (3, 1 / 2)] =
     exampleUpdatedProfile"
  by (simp add: updatedProfileOf_def exampleUpdatedProfile_def exampleProfile_def)

lemma example_cycle:
  "syncDiasendDataToNightscout exampleConfig exampleAdapter exampleServices 900000 10 exampleState =
     ([ObtainToken, GetPatientData (Date 0) (Date 900000), CallProfileLoader,
       CallTreatmentsHandler [], CallProfileHandler exampleUpdatedProfile], Inr exampleResult)"
proof -
  have c: "existingProfileConfigOf (orDefault None ''Diasend'') exampleProfile =
             Some exampleProfileConfig"
    by (simp add: orDefault_def sample_existing)
  have b: "orDefault (basal exampleProfileConfig) [] = [(0, 1)]"
    "orDefault (Some [examplePrevious]) [] = [examplePrevious]"
    "orDefault None ''Diasend'' = ''Diasend''"
    by (simp_all add: orDefault_def exampleProfileConfig_def)
  show ?thesis
    unfolding exampleServices_def exampleState_sample sample_cycle [OF c] sample_fetched b
      sample_records sample_identified sample_basalRecords sample_unprocessed sample_merges
      example_updatedProfile
    by (simp add: exampleResult_def indexOf_def examplePrevious_def)
qed

lemma example_glucose_cycle:
  "syncDiasendGlucoseToNightscout exampleConfig exampleAdapter exampleServices 900000 10 exampleState =
     ([ObtainToken, GetPatientData (Date 0) (Date 900000),
       CallEntriesHandler [\<lparr>date = 5000, sgv = 100, entry_device = ''pump''\<rparr>]],
      Inr exampleGlucoseResult)"
  unfolding exampleServices_def exampleState_sample sample_glucose_cycle sample_fetched
  by (simp add: exampleFetched_def exampleAdapter_def latestEntryDate_def sortLatestFirst_def
      exampleGlucoseResult_def)

lemma sample_carried_cycle:
  "syncDiasendDataToNightscout exampleConfig exampleAdapter (servicesFor []) 900000 10
     (sampleState None (Some [exampleCarb])) =
   ([ObtainToken, GetPatientData (Date 0) (Date 900000), CallProfileLoader,
     CallTreatmentsHandler [''Carb Correction''],
     CallProfileHandler (updatedProfileOf ''Diasend'' exampleProfile exampleProfileConfig [(0, 1)])],
    Inr \<lparr>treatments = [''Carb Correction''],
         profile = updatedProfileOf ''Diasend'' exampleProfile exampleProfileConfig [(0, 1)],
         latestRecordDate = None, unprocessedRecords = []\<rparr>)"
proof -
  have c: "existingProfileConfigOf (orDefault None ''Diasend'') exampleProfile =
             Some exampleProfileConfig"
    by (simp add: orDefault_def sample_existing)
  have b: "orDefault (basal exampleProfileConfig) [] = [(0, 1)]"
    "orDefault (Some [exampleCarb]) [] = [exampleCarb]"
    "orDefault None ''Diasend'' = ''Diasend''"
    by (simp_all add: orDefault_def exampleProfileConfig_def)
  have r: "withPrevious [exampleCarb] (nonGlucose []) = [exampleCarb]"
    "latestOf (nonGlucose []) = None"
    "basalRecordsOf [exampleCarb] = []"
    by (simp_all add: withPrevious_def nonGlucose_def latestOf_def basalRecordsOf_def
        exampleCarb_def)
  have i: "identifyTreatments (diasendRecordToNightscoutTreatment exampleAdapter) [exampleCarb] =
             ([''Carb Correction''], [])"
    by (simp add: identifyTreatments_def isCarbOrBolus_def reduceStep_def exampleAdapter_def
        exampleCarb_def)
  show ?thesis
    unfolding sample_cycle [OF c] sample_fetched b r i sample_merges
    by simp
qed

lemma sample_rejected_cycle:
  "syncDiasendDataToNightscout exampleConfig exampleAdapter (servicesFor exampleBolusData) 900000 10
     (sampleState None None) =
   ([ObtainToken, GetPatientData (Date 0) (Date 900000), CallProfileLoader,
     CallTreatmentsHandler [],
     CallProfileHandler (updatedProfileOf ''Diasend'' exampleProfile exampleProfileConfig [(0, 1)])],
    Inr \<lparr>treatments = [],
         profile = updatedProfileOf ''Diasend'' exampleProfile exampleProfileConfig [(0, 1)],
         latestRecordDate = Some 6000,
         unprocessedRecords =
           [\<lparr>ref = 10, rtype = insulin_bolus, created_at = 6000, rvalue = 3, device = ''pump''\<rparr>]\<rparr>)"
proof -
  let ?b = "\<lparr>ref = 10, rtype = insulin_bolus, created_at = 6000, rvalue = 3, device = ''pump''\<rparr>"
  have c: "existingProfileConfigOf (orDefault None ''Diasend'') exampleProfile =
             Some exampleProfileConfig"
    by (simp add: orDefault_def sample_existing)
  have b: "orDefault (basal exampleProfileConfig) [] = [(0, 1)]"
    "orDefault None [] = ([] :: patient_record list)"
    "orDefault None ''Diasend'' = ''Diasend''"
    by (simp_all add: orDefault_def exampleProfileConfig_def)
  have r: "withPrevious [] (nonGlucose [?b]) = [?b]"
    "latestOf (nonGlucose [?b]) = Some 6000"
    "basalRecordsOf [?b] = []"
    by (simp_all add: withPrevious_def nonGlucose_def latestOf_def basalRecordsOf_def
        sortLatestFirst_def)
  have i: "identifyTreatments (diasendRecordToNightscoutTreatment exampleAdapter) [?b] = ([], [?b])"
    by (simp add: identifyTreatments_def isCarbOrBolus_def reduceStep_def exampleAdapter_def)
  show ?thesis
    unfolding sample_cycle [OF c] sample_fetched b r i sample_merges
    by (simp add: indexOf_def)
qed

lemma sample_late_cycle:
  "syncDiasendGlucoseToNightscout exampleConfig exampleAdapter (servicesFor exampleLateData) 900000 10
     (sampleState None None) =
   ([ObtainToken, GetPatientData (Date 0) (Date 900000),
     CallEntriesHandler [\<lparr>date = 8640000000000000, sgv = 100, entry_device = ''cgm''\<rparr>]],
    Inr \<lparr>entries = [\<lparr>date = 8640000000000000, sgv = 100, entry_device = ''cgm''\<rparr>],
         entriesLatestRecordDate = Some 8640000000000000\<rparr>)"
  unfolding sample_glucose_cycle sample_fetched
  by (simp add: exampleAdapter_def latestEntryDate_def sortLatestFirst_def)

lemma sample_sport_cycle:
  "syncDiasendDataToNightscout exampleConfig exampleAdapter exampleServices 900000 10
     (sampleState (Some ''Sport'') (Some [examplePrevious])) =
   ([ObtainToken, GetPatientData (Date 0) (Date 900000), CallProfileLoader,
     CallTreatmentsHandler [], CallProfileHandler exampleSportUpdatedProfile],
    Inr (exampleResult\<lparr>profile := exampleSportUpdatedProfile\<rparr>))"
proof -
  have c: "existingProfileConfigOf (orDefault (Some ''Sport'') ''Diasend'') exampleProfile =
             Some exampleSportConfig"
    by (simp add: orDefault_def sample_existing)
  have b: "orDefault (basal exampleSportConfig) [] = [(0, 1 / 2)]"
    "orDefault (Some [examplePrevious]) [] = [examplePrevious]"
    "orDefault (Some ''Sport'') ''Diasend'' = ''Sport''"
    by (simp_all add: orDefault_def exampleSportConfig_def)
  have u: "updatedProfileOf ''Sport'' exampleProfile exampleSportConfig [(0, 1 / 2), (3, 1 / 2)] =
             exampleSportUpdatedProfile"
    by (simp add: updatedProfileOf_def exampleSportUpdatedProfile_def exampleProfile_def
        fun_upd_twist)
  show ?thesis
    unfolding exampleServices_def sample_cycle [OF c] sample_fetched b
      sample_records sample_identified sample_basalRecords sample_unprocessed sample_merges u
    by (simp add: exampleResult_def indexOf_def examplePrevious_def)
qed

lemma sample_heap:
  "profileAt exampleHeap 20 = Some exampleProfile"
  "dom (cells exampleHeap) \<subseteq> {..<nextAddr exampleHeap}"
  by (auto simp: profileAt_def exampleHeap_def configAt_def storeAt_def exampleProfile_def
      fun_eq_iff)

lemma sample_night_cycle:
  "syncDiasendDataToNightscout exampleConfig exampleAdapter exampleServices 900000 10
     (exampleState\<lparr>nightscoutProfileLoader := Some (Inr exampleNightProfile)\<rparr>) =
   ([ObtainToken, GetPatientData (Date 0) (Date 900000), CallProfileLoader],
    Inl (TypeError ''Cannot read properties of undefined (reading basal)''))"
proof -
  have f: "fetchFor exampleConfig exampleServices 900000 10
      (exampleState\<lparr>nightscoutProfileLoader := Some (Inr exampleNightProfile)\<rparr>) =
      fetchFor exampleConfig exampleServices 900000 10 exampleState"
    by (simp add: fetchFor_def)
  have n: "profileNameOf exampleConfig
      (exampleState\<lparr>nightscoutProfileLoader := Some (Inr exampleNightProfile)\<rparr>) = ''Diasend''"
    using example_profileName by (simp add: profileNameOf_def)
  have c: "existingProfileConfigOf ''Diasend'' exampleNightProfile = None"
    by (simp add: existingProfileConfigOf_def jsIn_def jsGet_def objectPrototypeMembers_def
        exampleNightProfile_def exampleProfile_def)
  show ?thesis
    unfolding syncData_split f example_fetch n
    by (simp add: orDefault_def syncFetched_def c Let_def)
qed

section \<open>The claims\<close>

subsection \<open>C2: which records the cursor is computed from\<close>

text \<open>
  C2, as the code has it. In every cycle of \<open>syncDiasendDataToNightscout\<close> that returns,
  \<open>latestRecordDate\<close> is the maximum of \<open>created_at\<close> over all freshly fetched records that
  are not glucose records, and \<open>null\<close> when there is none. The resolver and the
  carried-forward \<open>previousRecords\<close> have no part in it: a fetched record counts whether or
  not it was resolved.
\<close>

theorem latestRecordDate_over_fetched:
  assumes "syncDiasendDataToNightscout cfg ad sv now heap args = (cs, Inr res)"
    and "fetchFor cfg sv now heap args = (cs0, Inr fetched)"
  shows "latestRecordDate res =
           (if nonGlucose fetched = [] then None
            else Some (Max (created_at ` set (nonGlucose fetched))))"
proof -
  from syncData_Inr [OF assms(1)] assms(2) obtain cs1 where
    "syncFetched ad (treatmentsHandlerSettlesFirst sv) (profileNameOf cfg args)
       (orDefault (nightscoutProfileLoader args) (fetchProfile sv))
       (orDefault (nightscoutTreatmentsHandler args) (reportTreatmentsToNightscout sv))
       (orDefault (nightscoutProfileHandler args) (updateProfile sv))
       (orDefault (previousRecords args) []) fetched = (cs1, Inr res)"
    by auto
  from syncFetched_result(1) [OF this] show ?thesis
    by (simp add: latestOf_Max)
qed

text \<open>
  C2, evaluated at the sample inputs: the fetch returns a glucose record, a basal record at
  3000 and a bolus at 6000, and the cursor is the date of the bolus.
\<close>

theorem latestRecordDate_over_fetched_witness:
  "syncDiasendDataToNightscout exampleConfig exampleAdapter exampleServices 900000 10 exampleState =
     ([ObtainToken, GetPatientData (Date 0) (Date 900000), CallProfileLoader, CallTreatmentsHandler [],
       CallProfileHandler exampleUpdatedProfile], Inr exampleResult)
   \<and> fetchFor exampleConfig exampleServices 900000 10 exampleState =
       ([ObtainToken, GetPatientData (Date 0) (Date 900000)], Inr exampleFetched)
   \<and> latestRecordDate exampleResult = Some (Max (created_at ` set (nonGlucose exampleFetched)))"
  using latestRecordDate_over_fetched [OF example_cycle example_fetch] example_cycle example_fetch
  by (simp add: nonGlucose_def exampleFetched_def)

text \<open>
  C2 as stated fails. At the sample inputs the resolver throws for the fetched bolus of date
  6000: no treatment is reported, the bolus is the only element of \<open>unprocessedRecords\<close>, and
  \<open>latestRecordDate\<close> is 6000, the date of that unprocessed record.
\<close>

theorem latestRecordDate_counts_unprocessed_record:
  "syncDiasendDataToNightscout exampleConfig exampleAdapter exampleServices 900000 10 exampleState =
     ([ObtainToken, GetPatientData (Date 0) (Date 900000), CallProfileLoader, CallTreatmentsHandler [],
       CallProfileHandler exampleUpdatedProfile], Inr exampleResult)
   \<and> treatments exampleResult = []
   \<and> unprocessedRecords exampleResult =
       [\<lparr>ref = 12, rtype = insulin_bolus, created_at = 6000, rvalue = 3, device = ''pump''\<rparr>]
   \<and> latestRecordDate exampleResult = Some 6000"
  using example_cycle by (simp add: exampleResult_def)

subsection \<open>C3: cursor monotonicity\<close>

text \<open>
  C3, as the code has it. For both step functions the cursor follows the records that
  \<open>latestRecordDate\<close> is computed from: the entries that the entries handler echoes (entries
  step), and the freshly fetched records that are not glucose records (treatments step),
  whether or not they were resolved and reported. Let the current \<open>dateFrom\<close> be the date
  \<open>d\<close>, let none of these records be earlier than \<open>d\<close>, and let one second after each of them
  be within the range of \<open>Date\<close>. A cycle that returns with at least one of them yields a state
  whose \<open>dateFrom\<close> is the latest of their dates plus 1000 milliseconds, which is greater than
  \<open>d\<close>; a cycle that returns with none of them yields a state whose \<open>dateFrom\<close> is \<open>d\<close>.
\<close>

theorem cursor_monotonicity:
  "(dateFrom state = Some (Date d) \<and> - maxTime \<le> d \<and>
    syncDiasendGlucoseToNightscout cfg ad sv now heap state = (cs, Inr gres) \<and>
    (\<forall>e \<in> set (entries gres). d \<le> date e \<and> date e + 1000 \<le> maxTime) \<longrightarrow>
      (\<exists>state'. entriesStep cfg ad sv now heap state = (cs, Inr state') \<and>
         (entries gres \<noteq> [] \<longrightarrow>
            dateFrom state' = Some (Date (Max (date ` set (entries gres)) + 1000)) \<and>
            d < Max (date ` set (entries gres)) + 1000) \<and>
         (entries gres = [] \<longrightarrow> dateFrom state' = Some (Date d))))
   \<and>
   (dateFrom state = Some (Date d) \<and> - maxTime \<le> d \<and>
    fetchFor cfg sv now heap state = (cs0, Inr fetched) \<and>
    (\<forall>r \<in> set fetched. d \<le> created_at r \<and> created_at r + 1000 \<le> maxTime) \<and>
    syncDiasendDataToNightscout cfg ad sv now heap state = (cs', Inr res) \<longrightarrow>
      (\<exists>state'. treatmentsStep cfg ad sv now heap state = (cs', Inr state') \<and>
         (nonGlucose fetched \<noteq> [] \<longrightarrow>
            dateFrom state' = Some (Date (Max (created_at ` set (nonGlucose fetched)) + 1000)) \<and>
            d < Max (created_at ` set (nonGlucose fetched)) + 1000) \<and>
         (nonGlucose fetched = [] \<longrightarrow> dateFrom state' = Some (Date d))))"
proof (intro conjI impI)
  assume h: "dateFrom state = Some (Date d) \<and> - maxTime \<le> d \<and>
    syncDiasendGlucoseToNightscout cfg ad sv now heap state = (cs, Inr gres) \<and>
    (\<forall>e \<in> set (entries gres). d \<le> date e \<and> date e + 1000 \<le> maxTime)"
  then have run: "syncDiasendGlucoseToNightscout cfg ad sv now heap state = (cs, Inr gres)"
    by simp
  let ?m = "Max (date ` set (entries gres))"
  have bounds: "d \<le> ?m \<and> ?m + 1000 \<le> maxTime" if "entries gres \<noteq> []"
  proof -
    from that have "?m \<in> date ` set (entries gres)"
      by (intro Max_in) auto
    then obtain e where "e \<in> set (entries gres)" "?m = date e" by auto
    with h show ?thesis by auto
  qed
  have next_date: "addSecond (newDate ?m) = Date (?m + 1000)" if "entries gres \<noteq> []"
    using bounds [OF that] h by (intro addSecond_newDate) auto
  show "\<exists>state'. entriesStep cfg ad sv now heap state = (cs, Inr state') \<and>
         (entries gres \<noteq> [] \<longrightarrow>
            dateFrom state' = Some (Date (?m + 1000)) \<and> d < ?m + 1000) \<and>
         (entries gres = [] \<longrightarrow> dateFrom state' = Some (Date d))"
    unfolding entriesStep_result [OF run] syncGlucose_latest [OF run]
    using h bounds next_date by auto
next
  assume h: "dateFrom state = Some (Date d) \<and> - maxTime \<le> d \<and>
    fetchFor cfg sv now heap state = (cs0, Inr fetched) \<and>
    (\<forall>r \<in> set fetched. d \<le> created_at r \<and> created_at r + 1000 \<le> maxTime) \<and>
    syncDiasendDataToNightscout cfg ad sv now heap state = (cs', Inr res)"
  then have run: "syncDiasendDataToNightscout cfg ad sv now heap state = (cs', Inr res)"
    and fetch: "fetchFor cfg sv now heap state = (cs0, Inr fetched)"
    by simp_all
  from syncData_Inr [OF run] fetch obtain cs1 where
    "syncFetched ad (treatmentsHandlerSettlesFirst sv) (profileNameOf cfg state)
       (orDefault (nightscoutProfileLoader state) (fetchProfile sv))
       (orDefault (nightscoutTreatmentsHandler state) (reportTreatmentsToNightscout sv))
       (orDefault (nightscoutProfileHandler state) (updateProfile sv))
       (orDefault (previousRecords state) []) fetched = (cs1, Inr res)"
    by auto
  from syncFetched_result(1) [OF this]
  have latest: "latestRecordDate res =
      (if nonGlucose fetched = [] then None
       else Some (Max (created_at ` set (nonGlucose fetched))))"
    by (simp add: latestOf_Max)
  let ?m = "Max (created_at ` set (nonGlucose fetched))"
  have bounds: "d \<le> ?m \<and> ?m + 1000 \<le> maxTime" if "nonGlucose fetched \<noteq> []"
  proof -
    from that have "?m \<in> created_at ` set (nonGlucose fetched)"
      by (intro Max_in) auto
    then obtain r where "r \<in> set (nonGlucose fetched)" "?m = created_at r" by auto
    moreover from this have "r \<in> set fetched" by (simp add: nonGlucose_def)
    ultimately show ?thesis using h by auto
  qed
  have next_date: "addSecond (newDate ?m) = Date (?m + 1000)" if "nonGlucose fetched \<noteq> []"
    using bounds [OF that] h by (intro addSecond_newDate) auto
  show "\<exists>state'. treatmentsStep cfg ad sv now heap state = (cs', Inr state') \<and>
         (nonGlucose fetched \<noteq> [] \<longrightarrow>
            dateFrom state' = Some (Date (?m + 1000)) \<and> d < ?m + 1000) \<and>
         (nonGlucose fetched = [] \<longrightarrow> dateFrom state' = Some (Date d))"
    unfolding treatmentsStep_result [OF run] latest
    using h bounds next_date by auto
qed

text \<open>
  C3, evaluated at the sample inputs: the entries step moves \<open>dateFrom\<close> from 0 to 6000 (one
  entry, at 5000), the treatments step from 0 to 7000 (fetched records at 3000 and 6000).
\<close>

theorem cursor_monotonicity_witness:
  "dateFrom exampleState = Some (Date 0)
   \<and> syncDiasendGlucoseToNightscout exampleConfig exampleAdapter exampleServices 900000 10 exampleState =
       ([ObtainToken, GetPatientData (Date 0) (Date 900000),
         CallEntriesHandler [\<lparr>date = 5000, sgv = 100, entry_device = ''pump''\<rparr>]],
        Inr exampleGlucoseResult)
   \<and> map date (entries exampleGlucoseResult) = [5000]
   \<and> (\<exists>state'. entriesStep exampleConfig exampleAdapter exampleServices 900000 10 exampleState =
         ([ObtainToken, GetPatientData (Date 0) (Date 900000),
           CallEntriesHandler [\<lparr>date = 5000, sgv = 100, entry_device = ''pump''\<rparr>]],
          Inr state') \<and> dateFrom state' = Some (Date 6000))
   \<and> fetchFor exampleConfig exampleServices 900000 10 exampleState =
       ([ObtainToken, GetPatientData (Date 0) (Date 900000)], Inr exampleFetched)
   \<and> map created_at exampleFetched = [5000, 3000, 6000]
   \<and> syncDiasendDataToNightscout exampleConfig exampleAdapter exampleServices 900000 10 exampleState =
       ([ObtainToken, GetPatientData (Date 0) (Date 900000), CallProfileLoader,
         CallTreatmentsHandler [], CallProfileHandler exampleUpdatedProfile], Inr exampleResult)
   \<and> (\<exists>state'. treatmentsStep exampleConfig exampleAdapter exampleServices 900000 10 exampleState =
         ([ObtainToken, GetPatientData (Date 0) (Date 900000), CallProfileLoader,
           CallTreatmentsHandler [], CallProfileHandler exampleUpdatedProfile], Inr state') \<and>
         dateFrom state' = Some (Date 7000))"
proof -
  have d: "dateFrom exampleState = Some (Date 0)"
    by (simp add: exampleState_def)
  have e: "entries exampleGlucoseResult = [\<lparr>date = 5000, sgv = 100, entry_device = ''pump''\<rparr>]"
    by (simp add: exampleGlucoseResult_def)
  have m: "map created_at exampleFetched = [5000, 3000, 6000]"
    by (simp add: exampleFetched_def)
  have ng: "nonGlucose exampleFetched \<noteq> []"
    "Max (created_at ` set (nonGlucose exampleFetched)) = 6000"
    by (simp_all add: nonGlucose_def exampleFetched_def)
  note c = cursor_monotonicity [of exampleState 0 exampleConfig exampleAdapter exampleServices
      900000 10 _ exampleGlucoseResult _ exampleFetched _ exampleResult]
  have h1: "dateFrom exampleState = Some (Date 0) \<and> - maxTime \<le> 0 \<and>
    syncDiasendGlucoseToNightscout exampleConfig exampleAdapter exampleServices 900000 10 exampleState =
      ([ObtainToken, GetPatientData (Date 0) (Date 900000),
        CallEntriesHandler [\<lparr>date = 5000, sgv = 100, entry_device = ''pump''\<rparr>]],
       Inr exampleGlucoseResult) \<and>
    (\<forall>e \<in> set (entries exampleGlucoseResult). 0 \<le> date e \<and> date e + 1000 \<le> maxTime)"
    using d example_glucose_cycle by (simp add: e maxTime_def)
  have h2: "dateFrom exampleState = Some (Date 0) \<and> - maxTime \<le> 0 \<and>
    fetchFor exampleConfig exampleServices 900000 10 exampleState =
      ([ObtainToken, GetPatientData (Date 0) (Date 900000)], Inr exampleFetched) \<and>
    (\<forall>r \<in> set exampleFetched. 0 \<le> created_at r \<and> created_at r + 1000 \<le> maxTime) \<and>
    syncDiasendDataToNightscout exampleConfig exampleAdapter exampleServices 900000 10 exampleState =
      ([ObtainToken, GetPatientData (Date 0) (Date 900000), CallProfileLoader,
        CallTreatmentsHandler [], CallProfileHandler exampleUpdatedProfile], Inr exampleResult)"
    using d example_fetch example_cycle by (simp add: exampleFetched_def maxTime_def)
  from c [THEN conjunct1, THEN mp, OF h1]
  have r1: "\<exists>state'. entriesStep exampleConfig exampleAdapter exampleServices 900000 10 exampleState =
         ([ObtainToken, GetPatientData (Date 0) (Date 900000),
           CallEntriesHandler [\<lparr>date = 5000, sgv = 100, entry_device = ''pump''\<rparr>]],
          Inr state') \<and> dateFrom state' = Some (Date 6000)"
    by (simp add: e)
  from c [THEN conjunct2, THEN mp, OF h2]
  have r2: "\<exists>state'. treatmentsStep exampleConfig exampleAdapter exampleServices 900000 10 exampleState =
         ([ObtainToken, GetPatientData (Date 0) (Date 900000), CallProfileLoader,
           CallTreatmentsHandler [], CallProfileHandler exampleUpdatedProfile], Inr state') \<and>
         dateFrom state' = Some (Date 7000)"
    by (simp add: ng)
  have e': "map date (entries exampleGlucoseResult) = [5000]"
    by (simp add: e)
  show ?thesis
    using d example_glucose_cycle e' r1 example_fetch m example_cycle r2 by blast
qed

text \<open>
  C3 as stated, with the records a cycle processes read as the records it resolves and
  reports, fails in both directions. A cycle whose fetch is empty resolves and reports the
  carried-forward carb record, and \<open>dateFrom\<close> stays 0. A cycle whose only fetched record is
  a bolus that the resolver rejects reports no treatment, and \<open>dateFrom\<close> moves to 7000. And
  one second after an entry at the last time value of \<open>Date\<close> is \<open>Invalid Date\<close>, not a later
  date.
\<close>

theorem cursor_does_not_follow_reported_records:
  "dateFrom (sampleState None (Some [exampleCarb])) = Some (Date 0)
   \<and> CallTreatmentsHandler [''Carb Correction''] \<in>
       set (fst (treatmentsStep exampleConfig exampleAdapter (servicesFor []) 900000 10
                   (sampleState None (Some [exampleCarb]))))
   \<and> nextDateFrom (treatmentsStep exampleConfig exampleAdapter (servicesFor []) 900000 10
                     (sampleState None (Some [exampleCarb]))) = Some (Date 0)
   \<and> dateFrom (sampleState None None :: string sync_args) = Some (Date 0)
   \<and> CallTreatmentsHandler [] \<in>
       set (fst (treatmentsStep exampleConfig exampleAdapter (servicesFor exampleBolusData) 900000 10
                   (sampleState None None)))
   \<and> nextDateFrom (treatmentsStep exampleConfig exampleAdapter (servicesFor exampleBolusData)
                     900000 10 (sampleState None None)) = Some (Date 7000)
   \<and> CallEntriesHandler [\<lparr>date = 8640000000000000, sgv = 100, entry_device = ''cgm''\<rparr>] \<in>
       set (fst (entriesStep exampleConfig exampleAdapter (servicesFor exampleLateData) 900000 10
                   (sampleState None None)))
   \<and> nextDateFrom (entriesStep exampleConfig exampleAdapter (servicesFor exampleLateData)
                     900000 10 (sampleState None None)) = Some InvalidDate"
  unfolding treatmentsStep_result [OF sample_carried_cycle]
    treatmentsStep_result [OF sample_rejected_cycle]
    entriesStep_result [OF sample_late_cycle]
  by (simp add: nextDateFrom_def sampleState_def addSecond_def newDate_def maxTime_def)

subsection \<open>C4: no duplicate carry-forward\<close>

text \<open>
  C4. In every cycle of \<open>syncDiasendDataToNightscout\<close> that returns, no object of
  \<open>previousRecords\<close> is an element of the returned \<open>unprocessedRecords\<close>: the identities of
  the two are disjoint. The treatments step stores the returned list as the next
  \<open>previousRecords\<close>, so a record carried into a cycle is not carried out of it. Every record
  returned is one of the objects that the fetch of this cycle has created, at the addresses
  from the counter upwards, so a record is carried forward once at most.
\<close>

theorem no_duplicate_carry_forward:
  assumes "syncDiasendDataToNightscout cfg ad sv now heap state = (cs, Inr res)"
  shows "ref ` set (unprocessedRecords res) \<inter> ref ` set (orDefault (previousRecords state) []) = {}
       \<and> (\<exists>state'. treatmentsStep cfg ad sv now heap state = (cs, Inr state') \<and>
             previousRecords state' = Some (unprocessedRecords res) \<and>
             ref ` set (orDefault (previousRecords state') []) \<inter>
               ref ` set (orDefault (previousRecords state) []) = {})
       \<and> (\<exists>cs0 fetched. fetchFor cfg sv now heap state = (cs0, Inr fetched) \<and>
             set (unprocessedRecords res) \<subseteq> set fetched \<and>
             map ref fetched = [heap ..< heap + length fetched])"
proof -
  let ?prev = "orDefault (previousRecords state) []"
  from syncData_Inr [OF assms] obtain cs0 fetched cs1 where
    f: "fetchFor cfg sv now heap state = (cs0, Inr fetched)" and
    sf: "syncFetched ad (treatmentsHandlerSettlesFirst sv) (profileNameOf cfg state)
       (orDefault (nightscoutProfileLoader state) (fetchProfile sv))
       (orDefault (nightscoutTreatmentsHandler state) (reportTreatmentsToNightscout sv))
       (orDefault (nightscoutProfileHandler state) (updateProfile sv))
       ?prev fetched = (cs1, Inr res)"
    by blast
  note u = syncFetched_result(2) [OF sf]
  have a: "ref ` set (unprocessedRecords res) \<inter> ref ` set ?prev = {}"
    unfolding u by (auto simp: indexOf_minus1)
  have "set (unprocessedRecords res) \<subseteq> set (withPrevious ?prev (nonGlucose fetched))"
    unfolding u using unprocessed_subset [of "diasendRecordToNightscoutTreatment ad"
        "withPrevious ?prev (nonGlucose fetched)"]
    by auto
  then have "set (unprocessedRecords res) \<subseteq> set ?prev \<union> set fetched"
    by (auto simp: withPrevious_def nonGlucose_def sortLatestFirst_def split: if_splits)
  with a have b: "set (unprocessedRecords res) \<subseteq> set fetched"
    by blast
  have c: "\<exists>cs0 fetched. fetchFor cfg sv now heap state = (cs0, Inr fetched) \<and>
             set (unprocessedRecords res) \<subseteq> set fetched \<and>
             map ref fetched = [heap ..< heap + length fetched]"
    using f b fetchFor_refs [OF f] by blast
  show ?thesis
    using a c by (simp add: treatmentsStep_result [OF assms] orDefault_def)
qed

text \<open>
  C4, evaluated at the sample inputs: the carried-forward bolus of identity 3 fails again and
  is dropped; only the fetched bolus of identity 12 is returned.
\<close>

theorem no_duplicate_carry_forward_witness:
  "syncDiasendDataToNightscout exampleConfig exampleAdapter exampleServices 900000 10 exampleState =
     ([ObtainToken, GetPatientData (Date 0) (Date 900000), CallProfileLoader, CallTreatmentsHandler [],
       CallProfileHandler exampleUpdatedProfile], Inr exampleResult)
   \<and> previousRecords exampleState = Some [examplePrevious]
   \<and> ref ` set (unprocessedRecords exampleResult) \<inter> ref ` set [examplePrevious] = {}"
  using no_duplicate_carry_forward [OF example_cycle] example_cycle
  by (simp add: exampleState_def orDefault_def)

subsection \<open>C5: a failure is local to its record\<close>

text \<open>
  C5. Let the resolver throw for the record \<open>r\<close> of the array of carb and bolus records
  \<open>xs @ r # ys\<close>. Then \<open>identifyTreatments\<close> returns a pair (the exception does not escape),
  \<open>r\<close> is appended to \<open>unprocessedRecords\<close> between what the records before it and the
  records after it contribute, and \<open>treatments\<close> is what the reduction yields for the other
  records \<open>xs\<close> and \<open>ys\<close>, the resolver being given the same array as before.
\<close>

theorem failure_is_per_record:
  assumes "filter isCarbOrBolus records = xs @ r # ys"
    and "resolve r (filter isCarbOrBolus records) = Inl e"
  shows "identifyTreatments resolve records =
           (fst (reduceOver resolve (filter isCarbOrBolus records) xs) @
              fst (reduceOver resolve (filter isCarbOrBolus records) ys),
            snd (reduceOver resolve (filter isCarbOrBolus records) xs) @ [r] @
              snd (reduceOver resolve (filter isCarbOrBolus records) ys))"
proof -
  let ?ctx = "filter isCarbOrBolus records"
  have "identifyTreatments resolve records = reduceOver resolve ?ctx (xs @ [r] @ ys)"
    using assms(1) by (simp add: identifyTreatments_reduceOver)
  also have "\<dots> = (fst (reduceOver resolve ?ctx xs) @ fst (reduceOver resolve ?ctx ys),
            snd (reduceOver resolve ?ctx xs) @ [r] @ snd (reduceOver resolve ?ctx ys))"
    using assms(2) by (simp add: reduceOver_append [of _ _ xs] reduceOver_Cons [of _ _ r ys] reduceOver_single)
  finally show ?thesis .
qed

text \<open>
  C5, evaluated at a batch of the sample adapter: the bolus of the pen fails, the records
  before and after it are resolved.
\<close>

theorem failure_is_per_record_witness:
  "filter isCarbOrBolus exampleBatch =
     [\<lparr>ref = 1, rtype = carb, created_at = 1000, rvalue = 30, device = ''pump''\<rparr>,
      \<lparr>ref = 2, rtype = insulin_bolus, created_at = 2000, rvalue = 3, device = ''pump''\<rparr>] @
     \<lparr>ref = 3, rtype = insulin_bolus, created_at = 3000, rvalue = 1, device = ''pen''\<rparr> #
     [\<lparr>ref = 5, rtype = carb, created_at = 4000, rvalue = 10, device = ''pump''\<rparr>]
   \<and> diasendRecordToNightscoutTreatment exampleAdapter
       \<lparr>ref = 3, rtype = insulin_bolus, created_at = 3000, rvalue = 1, device = ''pen''\<rparr>
       (filter isCarbOrBolus exampleBatch) = Inl (Error ''no carb record'')
   \<and> identifyTreatments (diasendRecordToNightscoutTreatment exampleAdapter) exampleBatch =
       ([''Carb Correction'', ''Meal Bolus'', ''Carb Correction''],
        [\<lparr>ref = 3, rtype = insulin_bolus, created_at = 3000, rvalue = 1, device = ''pen''\<rparr>])"
proof -
  let ?c1 = "\<lparr>ref = 1, rtype = carb, created_at = 1000, rvalue = 30, device = ''pump''\<rparr>"
  let ?b2 = "\<lparr>ref = 2, rtype = insulin_bolus, created_at = 2000, rvalue = 3, device = ''pump''\<rparr>"
  let ?b3 = "\<lparr>ref = 3, rtype = insulin_bolus, created_at = 3000, rvalue = 1, device = ''pen''\<rparr>"
  let ?c5 = "\<lparr>ref = 5, rtype = carb, created_at = 4000, rvalue = 10, device = ''pump''\<rparr>"
  have f: "filter isCarbOrBolus exampleBatch = [?c1, ?b2] @ ?b3 # [?c5]"
    by (simp add: exampleBatch_def isCarbOrBolus_def)
  have e: "diasendRecordToNightscoutTreatment exampleAdapter ?b3 (filter isCarbOrBolus exampleBatch) =
             Inl (Error ''no carb record'')"
    unfolding f by (simp add: exampleAdapter_def)
  have x: "reduceOver (diasendRecordToNightscoutTreatment exampleAdapter)
             (filter isCarbOrBolus exampleBatch) [?c1, ?b2] = ([''Carb Correction'', ''Meal Bolus''], [])"
    unfolding f by (simp add: reduceOver_def reduceStep_def exampleAdapter_def)
  have y: "reduceOver (diasendRecordToNightscoutTreatment exampleAdapter)
             (filter isCarbOrBolus exampleBatch) [?c5] = ([''Carb Correction''], [])"
    unfolding f by (simp add: reduceOver_def reduceStep_def exampleAdapter_def)
  note r = failure_is_per_record [of exampleBatch "[?c1, ?b2]" ?b3 "[?c5]"
      "diasendRecordToNightscoutTreatment exampleAdapter" "Error ''no carb record''", OF f e]
  have i: "identifyTreatments (diasendRecordToNightscoutTreatment exampleAdapter) exampleBatch =
       ([''Carb Correction'', ''Meal Bolus'', ''Carb Correction''], [?b3])"
    unfolding r x y by simp
  show ?thesis
    using f e i by blast
qed

subsection \<open>C6: missing credentials\<close>




subsection \<open>C7: glucose records and the treatments pipeline\<close>

text \<open>
  C7. In every cycle of \<open>syncDiasendDataToNightscout\<close> that returns, with \<open>records\<close> the
  array after \<open>unshift\<close>: the treatments reported and the records returned unprocessed are
  those of \<open>identifyTreatments\<close> on \<open>records\<close>, and every glucose record of \<open>records\<close> is one
  of \<open>previousRecords\<close>, none comes from the fetch; the basal records given to
  \<open>updateBasalProfile\<close> hold no glucose record; \<open>latestRecordDate\<close> is computed from the
  fetched records without the glucose records, and is the date of one of them.
\<close>

theorem glucose_excluded_from_treatments_pipeline:
  assumes "syncDiasendDataToNightscout cfg ad sv now heap args = (cs, Inr res)"
    and "fetchFor cfg sv now heap args = (cs0, Inr fetched)"
    and "records = withPrevious (orDefault (previousRecords args) []) (nonGlucose fetched)"
  shows "CallTreatmentsHandler
           (fst (identifyTreatments (diasendRecordToNightscoutTreatment ad) records)) \<in> set cs
       \<and> unprocessedRecords res =
           filter (\<lambda>record. indexOf (orDefault (previousRecords args) []) record = - 1)
             (snd (identifyTreatments (diasendRecordToNightscoutTreatment ad) records))
       \<and> {r \<in> set records. rtype r = glucose} \<subseteq> set (orDefault (previousRecords args) [])
       \<and> (\<exists>existing c. CallProfileHandler
             (updatedProfileOf (profileNameOf cfg args) existing c
                (updateBasalProfile ad (orDefault (basal c) []) (basalRecordsOf records))) \<in> set cs)
       \<and> glucose \<notin> rtype ` set (basalRecordsOf records)
       \<and> latestRecordDate res = latestOf (nonGlucose fetched)
       \<and> glucose \<notin> rtype ` set (nonGlucose fetched)
       \<and> set (nonGlucose fetched) \<subseteq> set fetched
       \<and> (case latestRecordDate res of None \<Rightarrow> True
           | Some t \<Rightarrow> t \<in> created_at ` set (nonGlucose fetched))"
proof -
  let ?prev = "orDefault (previousRecords args) []"
  from syncData_Inr [OF assms(1)] assms(2) obtain cs1 where
    sf: "syncFetched ad (treatmentsHandlerSettlesFirst sv) (profileNameOf cfg args)
       (orDefault (nightscoutProfileLoader args) (fetchProfile sv))
       (orDefault (nightscoutTreatmentsHandler args) (reportTreatmentsToNightscout sv))
       (orDefault (nightscoutProfileHandler args) (updateProfile sv))
       ?prev fetched = (cs1, Inr res)"
    and cs: "cs = cs0 @ cs1"
    by auto
  note calls = syncFetched_calls_Inr [OF sf]
  note result = syncFetched_result [OF sf]
  have g1: "glucose \<notin> rtype ` set (nonGlucose fetched)"
    by (auto simp: nonGlucose_def)
  have g2: "{r \<in> set records. rtype r = glucose} \<subseteq> set ?prev"
    unfolding assms(3) withPrevious_def sortLatestFirst_def nonGlucose_def by auto
  have g3: "glucose \<notin> rtype ` set (basalRecordsOf records)"
    by (auto simp: basalRecordsOf_def)
  have g4: "case latestRecordDate res of None \<Rightarrow> True
           | Some t \<Rightarrow> t \<in> created_at ` set (nonGlucose fetched)"
    unfolding result(1) by (auto split: option.splits dest: latestOf_mem)
  have g5: "set (nonGlucose fetched) \<subseteq> set fetched"
    by (auto simp: nonGlucose_def)
  from calls obtain existing c where
    cs1: "cs1 = [CallProfileLoader,
                 CallTreatmentsHandler
                   (fst (identifyTreatments (diasendRecordToNightscoutTreatment ad) records)),
                 CallProfileHandler
                   (updatedProfileOf (profileNameOf cfg args) existing c
                      (updateBasalProfile ad (orDefault (basal c) []) (basalRecordsOf records)))]"
    unfolding assms(3) by blast
  have c1: "CallTreatmentsHandler
           (fst (identifyTreatments (diasendRecordToNightscoutTreatment ad) records)) \<in> set cs"
    unfolding cs cs1 by simp
  have "CallProfileHandler
             (updatedProfileOf (profileNameOf cfg args) existing c
                (updateBasalProfile ad (orDefault (basal c) []) (basalRecordsOf records))) \<in> set cs"
    unfolding cs cs1 by simp
  then have c2: "\<exists>existing c. CallProfileHandler
             (updatedProfileOf (profileNameOf cfg args) existing c
                (updateBasalProfile ad (orDefault (basal c) []) (basalRecordsOf records))) \<in> set cs"
    by blast
  show ?thesis
    using c1 c2 g1 g2 g3 g4 g5 result unfolding assms(3) by blast
qed

text \<open>
  C7, evaluated at the sample inputs: the fetch returns a glucose, a basal and a bolus record;
  the array given to \<open>identifyTreatments\<close> holds the carried-forward bolus, the bolus and the
  basal record.
\<close>

theorem glucose_excluded_witness:
  "syncDiasendDataToNightscout exampleConfig exampleAdapter exampleServices 900000 10 exampleState =
     ([ObtainToken, GetPatientData (Date 0) (Date 900000), CallProfileLoader, CallTreatmentsHandler [],
       CallProfileHandler exampleUpdatedProfile], Inr exampleResult)
   \<and> fetchFor exampleConfig exampleServices 900000 10 exampleState =
       ([ObtainToken, GetPatientData (Date 0) (Date 900000)], Inr exampleFetched)
   \<and> map rtype exampleFetched = [glucose, insulin_basal, insulin_bolus]
   \<and> map rtype (withPrevious (orDefault (previousRecords exampleState) []) (nonGlucose exampleFetched)) =
       [insulin_bolus, insulin_bolus, insulin_basal]
   \<and> glucose \<notin> rtype ` set (nonGlucose exampleFetched)
   \<and> latestRecordDate exampleResult = latestOf (nonGlucose exampleFetched)"
proof -
  have a: "map rtype exampleFetched = [glucose, insulin_basal, insulin_bolus]"
    by (simp add: exampleFetched_def)
  have b: "map rtype (withPrevious (orDefault (previousRecords exampleState) [])
             (nonGlucose exampleFetched)) = [insulin_bolus, insulin_bolus, insulin_basal]"
    by (simp add: exampleFetched_def withPrevious_def nonGlucose_def exampleState_def
        orDefault_def examplePrevious_def sortLatestFirst_def)
  from glucose_excluded_from_treatments_pipeline [OF example_cycle example_fetch refl]
  show ?thesis
    using a b example_cycle example_fetch by simp
qed

subsection \<open>C8: the frame of the profile update\<close>

text \<open>
  C8, as the code has it. Whenever a cycle of \<open>syncDiasendDataToNightscout\<close> calls the
  profile handler, the profile it passes equals the loaded profile in every field but \<open>store\<close>
  (so in \<open>defaultProfile\<close>), and its store equals the loaded store at every name other than the
  profile name. When the loaded store has an entry under the profile name, the entry passed
  under that name is this entry with its basal schedule replaced by the merge of its schedule
  with the basal records of the cycle: every other field of it is unchanged. On a store of
  objects, the lines that build the profile write to no object that existed before: every
  such object is unchanged, the loaded profile object still stands for the loaded profile, and
  a new object stands for the profile passed. The merger of \<^verbatim>\<open>./adapter\<close> is taken as a
  function of its arguments, as spec 4.3 requires.
\<close>

theorem profile_update_frame:
  assumes "syncDiasendDataToNightscout cfg ad sv now heap args = (cs, r)"
    and "CallProfileHandler p \<in> set cs"
    and "orDefault (nightscoutProfileLoader args) (fetchProfile sv) = Inr existing"
    and "fetchFor cfg sv now heap args = (cs0, Inr fetched)"
  shows "p\<lparr>store := store existing\<rparr> = existing
       \<and> defaultProfile p = defaultProfile existing
       \<and> (\<forall>name. name \<noteq> profileNameOf cfg args \<longrightarrow> store p name = store existing name)
       \<and> (\<forall>c. store existing (profileNameOf cfg args) = Some c \<longrightarrow>
             store p (profileNameOf cfg args) =
               Some (c\<lparr>basal := Some (updateBasalProfile ad (orDefault (basal c) [])
                      (basalRecordsOf (withPrevious (orDefault (previousRecords args) [])
                         (nonGlucose fetched))))\<rparr>))
       \<and> (profileAt h existingProfile = Some existing \<and> dom (cells h) \<subseteq> {..<nextAddr h} \<longrightarrow>
            (\<exists>h' updatedProfile.
               updateProfileOnHeap (updateBasalProfile ad) h (profileNameOf cfg args) existingProfile
                 (basalRecordsOf (withPrevious (orDefault (previousRecords args) [])
                    (nonGlucose fetched))) = Inr (h', updatedProfile) \<and>
               profileAt h' updatedProfile = Some p \<and>
               (\<forall>a < nextAddr h. cells h' a = cells h a) \<and>
               profileAt h' existingProfile = Some existing))"
proof -
  let ?name = "profileNameOf cfg args"
  let ?recs = "basalRecordsOf (withPrevious (orDefault (previousRecords args) []) (nonGlucose fetched))"
  from syncData_handler_call [OF assms(1,2)] assms(4) have
    "CallProfileHandler p \<in> set (fst (syncFetched ad (treatmentsHandlerSettlesFirst sv) ?name
             (orDefault (nightscoutProfileLoader args) (fetchProfile sv))
             (orDefault (nightscoutTreatmentsHandler args) (reportTreatmentsToNightscout sv))
             (orDefault (nightscoutProfileHandler args) (updateProfile sv))
             (orDefault (previousRecords args) []) fetched))"
    by auto
  from syncFetched_handler_call [OF this] assms(3) obtain c where
    c: "existingProfileConfigOf ?name existing = Some c"
    and p: "p = updatedProfileOf ?name existing c (updateBasalProfile ad (orDefault (basal c) []) ?recs)"
    by auto
  have top: "p\<lparr>store := store existing\<rparr> = existing" "defaultProfile p = defaultProfile existing"
    unfolding p by (simp_all add: updatedProfileOf_def)
  have others: "\<forall>name. name \<noteq> ?name \<longrightarrow> store p name = store existing name"
    unfolding p by (simp add: updatedProfileOf_def)
  have own: "\<forall>c0. store existing ?name = Some c0 \<longrightarrow>
      store p ?name = Some (c0\<lparr>basal := Some (updateBasalProfile ad (orDefault (basal c0) []) ?recs)\<rparr>)"
  proof (intro allI impI)
    fix c0
    assume "store existing ?name = Some c0"
    from existingProfileConfigOf_own [OF this] c have "c = c0" by simp
    then show "store p ?name =
        Some (c0\<lparr>basal := Some (updateBasalProfile ad (orDefault (basal c0) []) ?recs)\<rparr>)"
      unfolding p by (simp add: updatedProfileOf_def)
  qed
  have objects: "profileAt h existingProfile = Some existing \<and> dom (cells h) \<subseteq> {..<nextAddr h} \<longrightarrow>
      (\<exists>h' updatedProfile.
         updateProfileOnHeap (updateBasalProfile ad) h ?name existingProfile ?recs =
           Inr (h', updatedProfile) \<and>
         profileAt h' updatedProfile = Some p \<and>
         (\<forall>a < nextAddr h. cells h' a = cells h a) \<and>
         profileAt h' existingProfile = Some existing)"
  proof
    assume "profileAt h existingProfile = Some existing \<and> dom (cells h) \<subseteq> {..<nextAddr h}"
    then have a: "profileAt h existingProfile = Some existing"
      and b: "dom (cells h) \<subseteq> {..<nextAddr h}"
      by simp_all
    from updateProfileOnHeap_refines [OF a b c, of "updateBasalProfile ad" ?recs]
    show "\<exists>h' updatedProfile.
         updateProfileOnHeap (updateBasalProfile ad) h ?name existingProfile ?recs =
           Inr (h', updatedProfile) \<and>
         profileAt h' updatedProfile = Some p \<and>
         (\<forall>a < nextAddr h. cells h' a = cells h a) \<and>
         profileAt h' existingProfile = Some existing"
      unfolding p .
  qed
  show ?thesis
    using top others own objects by blast
qed

text \<open>
  C8, evaluated at the sample inputs with the profile name \<open>Sport\<close>, an entry of the loaded
  store: the entry passed keeps its field \<open>dia\<close> and has the merged basal schedule, the entry
  \<open>Default\<close> is unchanged, and on the sample store of objects the loaded profile object still
  stands for the loaded profile.
\<close>

theorem profile_update_frame_witness:
  "CallProfileHandler exampleSportUpdatedProfile \<in>
     set (fst (syncDiasendDataToNightscout exampleConfig exampleAdapter exampleServices 900000 10
                 (sampleState (Some ''Sport'') (Some [examplePrevious]))))
   \<and> fetchFor exampleConfig exampleServices 900000 10
         (sampleState (Some ''Sport'') (Some [examplePrevious])) =
       ([ObtainToken, GetPatientData (Date 0) (Date 900000)], Inr exampleFetched)
   \<and> store exampleProfile ''Sport'' = Some exampleSportConfig
   \<and> store exampleProfile ''Default'' = Some exampleProfileConfig
   \<and> store exampleSportUpdatedProfile ''Sport'' =
       Some (exampleSportConfig\<lparr>basal := Some [(0, 1 / 2), (3, 1 / 2)]\<rparr>)
   \<and> store exampleSportUpdatedProfile ''Default'' = Some exampleProfileConfig
   \<and> exampleSportUpdatedProfile\<lparr>store := store exampleProfile\<rparr> = exampleProfile
   \<and> profileAt exampleHeap 20 = Some exampleProfile
   \<and> (\<exists>h' updatedProfile.
         updateProfileOnHeap (updateBasalProfile exampleAdapter) exampleHeap ''Sport'' 20
           [\<lparr>ref = 11, rtype = insulin_basal, created_at = 3000, rvalue = 1 / 2, device = ''pump''\<rparr>] =
           Inr (h', updatedProfile) \<and>
         profileAt h' updatedProfile = Some exampleSportUpdatedProfile \<and>
         profileAt h' 20 = Some exampleProfile)"
proof -
  let ?state = "sampleState (Some ''Sport'') (Some [examplePrevious]) :: string sync_args"
  have run: "syncDiasendDataToNightscout exampleConfig exampleAdapter exampleServices 900000 10 ?state =
      ([ObtainToken, GetPatientData (Date 0) (Date 900000), CallProfileLoader,
        CallTreatmentsHandler [], CallProfileHandler exampleSportUpdatedProfile],
       Inr (exampleResult\<lparr>profile := exampleSportUpdatedProfile\<rparr>))"
    by (rule sample_sport_cycle)
  have call: "CallProfileHandler exampleSportUpdatedProfile \<in>
      set [ObtainToken, GetPatientData (Date 0) (Date 900000), CallProfileLoader,
           CallTreatmentsHandler [], CallProfileHandler exampleSportUpdatedProfile :: string call]"
    by simp
  have loader: "orDefault (nightscoutProfileLoader ?state) (fetchProfile exampleServices) =
      Inr exampleProfile"
    by (simp add: sampleState_def exampleServices_def servicesFor_def orDefault_def)
  have fetch: "fetchFor exampleConfig exampleServices 900000 10 ?state =
      ([ObtainToken, GetPatientData (Date 0) (Date 900000)], Inr exampleFetched)"
    unfolding exampleServices_def sample_fetch sample_fetched ..
  have n: "profileNameOf exampleConfig ?state = ''Sport''"
    by (simp add: profileNameOf_def sampleState_def orDefault_def)
  have s: "store exampleProfile ''Sport'' = Some exampleSportConfig"
    "store exampleProfile ''Default'' = Some exampleProfileConfig"
    by (simp_all add: exampleProfile_def)
  have recs: "basalRecordsOf (withPrevious (orDefault (previousRecords ?state) [])
      (nonGlucose exampleFetched)) =
      [\<lparr>ref = 11, rtype = insulin_basal, created_at = 3000, rvalue = 1 / 2, device = ''pump''\<rparr>]"
    by (simp add: sampleState_def orDefault_def sample_records sample_basalRecords)
  have b: "orDefault (basal exampleSportConfig) [] = [(0, 1 / 2)]"
    by (simp add: orDefault_def exampleSportConfig_def)
  note t = profile_update_frame [OF run call loader fetch, of exampleHeap 20,
      unfolded n recs]
  from t have t1: "exampleSportUpdatedProfile\<lparr>store := store exampleProfile\<rparr> = exampleProfile"
    by blast
  from t have "\<forall>name. name \<noteq> ''Sport'' \<longrightarrow>
      store exampleSportUpdatedProfile name = store exampleProfile name"
    by blast
  then have t2: "store exampleSportUpdatedProfile ''Default'' = Some exampleProfileConfig"
    by (simp add: s)
  from t s(1) have t3: "store exampleSportUpdatedProfile ''Sport'' =
      Some (exampleSportConfig\<lparr>basal := Some [(0, 1 / 2), (3, 1 / 2)]\<rparr>)"
    by (simp add: b sample_merges)
  from t sample_heap have t4: "\<exists>h' updatedProfile.
         updateProfileOnHeap (updateBasalProfile exampleAdapter) exampleHeap ''Sport'' 20
           [\<lparr>ref = 11, rtype = insulin_basal, created_at = 3000, rvalue = 1 / 2, device = ''pump''\<rparr>] =
           Inr (h', updatedProfile) \<and>
         profileAt h' updatedProfile = Some exampleSportUpdatedProfile \<and>
         profileAt h' 20 = Some exampleProfile"
    by blast
  have c0: "CallProfileHandler exampleSportUpdatedProfile \<in>
     set (fst (syncDiasendDataToNightscout exampleConfig exampleAdapter exampleServices 900000 10
                 ?state))"
    unfolding run by simp
  show ?thesis
    using c0 fetch s t1 t2 t3 t4 sample_heap(1) by blast
qed

text \<open>
  C8 as stated fails when the loaded store has no entry under the profile name. At the sample
  inputs with the profile name \<open>Diasend\<close> the profile passed differs from the loaded profile by
  a whole entry, which has the non-basal fields of the entry of the default profile.
\<close>

theorem profile_gains_entry_when_name_is_missing:
  "CallProfileHandler exampleUpdatedProfile \<in>
     set (fst (syncDiasendDataToNightscout exampleConfig exampleAdapter exampleServices 900000 10
                 exampleState))
   \<and> orDefault (nightscoutProfileLoader exampleState) (fetchProfile exampleServices) =
       Inr exampleProfile
   \<and> profileNameOf exampleConfig exampleState = ''Diasend''
   \<and> store exampleProfile ''Diasend'' = None
   \<and> store exampleUpdatedProfile ''Diasend'' =
       Some (exampleProfileConfig\<lparr>basal := Some [(0, 1), (3, 1 / 2)]\<rparr>)
   \<and> others exampleProfileConfig = [''dia'' \<mapsto> ''4'', ''timezone'' \<mapsto> ''UTC'']"
  unfolding example_cycle example_loader example_profileName
  by (simp add: exampleProfile_def exampleUpdatedProfile_def exampleProfileConfig_def)

subsection \<open>C9: the basal merge is idempotent, sorted and free of duplicates\<close>

text \<open>
  C9, for the merge modelled from the spec. For every existing schedule, every sequence of
  observed records and every conversion of dates into times of day: merging the same records
  a second time yields the schedule of the first merge, and that schedule is sorted by time
  of day, ascending, with no time of day twice.
\<close>

theorem updateBasalProfile_spec_idempotent_sorted_distinct:
  "updateBasalProfile_spec timeOfDay (updateBasalProfile_spec timeOfDay existing records) records =
     updateBasalProfile_spec timeOfDay existing records
   \<and> sorted (map fst (updateBasalProfile_spec timeOfDay existing records))
   \<and> distinct (map fst (updateBasalProfile_spec timeOfDay existing records))"
  by (simp add: updateBasalProfile_spec_idem updateBasalProfile_spec_sorted
      updateBasalProfile_spec_distinct)

text \<open>C9, evaluated: merging the basal record of 00:00:03 into a schedule, once and twice.\<close>

theorem updateBasalProfile_spec_idempotent_witness:
  "updateBasalProfile_spec exampleTimeOfDay [(0, 1)]
     [\<lparr>ref = 11, rtype = insulin_basal, created_at = 3000, rvalue = 1 / 2, device = ''pump''\<rparr>] =
     [(0, 1), (3, 1 / 2)]
   \<and> updateBasalProfile_spec exampleTimeOfDay [(0, 1), (3, 1 / 2)]
     [\<lparr>ref = 11, rtype = insulin_basal, created_at = 3000, rvalue = 1 / 2, device = ''pump''\<rparr>] =
     [(0, 1), (3, 1 / 2)]"
  using updateBasalProfile_spec_idempotent_sorted_distinct [of exampleTimeOfDay "[(0, 1)]"
      "[\<lparr>ref = 11, rtype = insulin_basal, created_at = 3000, rvalue = 1 / 2, device = ''pump''\<rparr>]"]
  unfolding example_merge by simp

subsection \<open>C10: a profile name that the store does not have\<close>

text \<open>
  C10, as the code has it. Let the test \<open>nightscoutProfileName in existingProfile.store\<close> be
  false (the profile name is neither a key of the loaded store nor a member that the store
  inherits from \<open>Object.prototype\<close>), and let the loaded store have the entry \<open>c\<close> under
  \<open>defaultProfile\<close>. Then a cycle whose fetch succeeds and whose profile loader returns the
  profile calls, after the fetch, the profile loader, the treatments handler and the profile
  handler, and the store of the profile it passes to the profile handler is the loaded store
  with one more entry, under the profile name: \<open>c\<close> with its basal schedule replaced by the
  merge of \<open>c\<close>'s schedule with the basal records of the cycle. The entry under the default
  profile and every other entry of the loaded store are unchanged.
\<close>

theorem missing_profile_name_uses_default:
  assumes "fetchFor cfg sv now heap args = (cs0, Inr fetched)"
    and "orDefault (nightscoutProfileLoader args) (fetchProfile sv) = Inr existing"
    and "\<not> jsIn (profileNameOf cfg args) (store existing)"
    and "store existing (defaultProfile existing) = Some c"
  shows "\<exists>p. fst (syncDiasendDataToNightscout cfg ad sv now heap args) =
           cs0 @ [CallProfileLoader,
                  CallTreatmentsHandler
                    (fst (identifyTreatments (diasendRecordToNightscoutTreatment ad)
                       (withPrevious (orDefault (previousRecords args) []) (nonGlucose fetched)))),
                  CallProfileHandler p]
       \<and> store p =
           (store existing)(profileNameOf cfg args \<mapsto>
              c\<lparr>basal := Some (updateBasalProfile ad (orDefault (basal c) [])
                   (basalRecordsOf (withPrevious (orDefault (previousRecords args) [])
                      (nonGlucose fetched))))\<rparr>)
       \<and> defaultProfile p = defaultProfile existing
       \<and> store p (defaultProfile existing) = Some c
       \<and> profileNameOf cfg args \<notin> dom (store existing)
       \<and> dom (store p) = insert (profileNameOf cfg args) (dom (store existing))
       \<and> store p |` dom (store existing) = store existing"
proof -
  let ?name = "profileNameOf cfg args"
  let ?merged = "updateBasalProfile ad (orDefault (basal c) [])
      (basalRecordsOf (withPrevious (orDefault (previousRecords args) []) (nonGlucose fetched)))"
  let ?p = "updatedProfileOf ?name existing c ?merged"
  from existingProfileConfigOf_default [OF assms(3,4)]
  have c: "existingProfileConfigOf ?name existing = Some c" .
  have calls: "fst (syncDiasendDataToNightscout cfg ad sv now heap args) =
           cs0 @ [CallProfileLoader,
                  CallTreatmentsHandler
                    (fst (identifyTreatments (diasendRecordToNightscoutTreatment ad)
                       (withPrevious (orDefault (previousRecords args) []) (nonGlucose fetched)))),
                  CallProfileHandler ?p]"
    unfolding syncData_split assms(1) assms(2) by (simp add: syncFetched_calls [OF c])
  from assms(3) have nd: "?name \<notin> dom (store existing)"
    by (simp add: jsIn_def)
  with assms(4) have ne: "?name \<noteq> defaultProfile existing"
    by auto
  have restr: "((store existing)(?name \<mapsto> x)) |` dom (store existing) = store existing" for x
    using nd by (auto simp: restrict_map_def fun_eq_iff domIff)
  have s: "store ?p = (store existing)(?name \<mapsto> c\<lparr>basal := Some ?merged\<rparr>)"
    "defaultProfile ?p = defaultProfile existing"
    by (simp_all add: updatedProfileOf_def)
  have d: "store ?p (defaultProfile existing) = Some c"
    unfolding s using ne assms(4) by simp
  have dm: "dom (store ?p) = insert ?name (dom (store existing))"
    unfolding s by simp
  have r: "store ?p |` dom (store existing) = store existing"
    unfolding s by (rule restr)
  show ?thesis
    using calls s d nd dm r by blast
qed

text \<open>
  C10, evaluated at the sample inputs: the store has the entries \<open>Default\<close> and \<open>Sport\<close>, the
  profile name is \<open>Diasend\<close>.
\<close>

theorem missing_profile_name_uses_default_witness:
  "fetchFor exampleConfig exampleServices 900000 10 exampleState =
       ([ObtainToken, GetPatientData (Date 0) (Date 900000)], Inr exampleFetched)
   \<and> orDefault (nightscoutProfileLoader exampleState) (fetchProfile exampleServices) =
       Inr exampleProfile
   \<and> profileNameOf exampleConfig exampleState = ''Diasend''
   \<and> \<not> jsIn ''Diasend'' (store exampleProfile)
   \<and> store exampleProfile (defaultProfile exampleProfile) = Some exampleProfileConfig
   \<and> (\<exists>p. fst (syncDiasendDataToNightscout exampleConfig exampleAdapter exampleServices 900000 10
                  exampleState) =
            [ObtainToken, GetPatientData (Date 0) (Date 900000), CallProfileLoader,
             CallTreatmentsHandler [], CallProfileHandler p]
        \<and> store p =
            (store exampleProfile)(''Diasend'' \<mapsto>
               exampleProfileConfig\<lparr>basal := Some [(0, 1), (3, 1 / 2)]\<rparr>)
        \<and> store p ''Default'' = Some exampleProfileConfig
        \<and> dom (store p) = {''Diasend'', ''Default'', ''Sport''})"
proof -
  note n = example_profileName
  have j: "\<not> jsIn (profileNameOf exampleConfig exampleState) (store exampleProfile)"
    unfolding n by (simp add: jsIn_def objectPrototypeMembers_def exampleProfile_def)
  have dp: "defaultProfile exampleProfile = ''Default''"
    by (simp add: exampleProfile_def)
  have d: "store exampleProfile (defaultProfile exampleProfile) = Some exampleProfileConfig"
    by (simp add: exampleProfile_def)
  have dm: "dom (store exampleProfile) = {''Default'', ''Sport''}"
    by (auto simp: exampleProfile_def)
  have prev: "orDefault (previousRecords exampleState) [] = [examplePrevious]"
    by (simp add: exampleState_def orDefault_def)
  have b: "orDefault (basal exampleProfileConfig) [] = [(0, 1)]"
    by (simp add: orDefault_def exampleProfileConfig_def)
  note t = missing_profile_name_uses_default [OF example_fetch example_loader j d,
      of exampleAdapter, unfolded n prev sample_records sample_identified sample_basalRecords b
        sample_merges dp dm]
  from t have "\<exists>p. fst (syncDiasendDataToNightscout exampleConfig exampleAdapter exampleServices 900000 10
                  exampleState) =
            [ObtainToken, GetPatientData (Date 0) (Date 900000), CallProfileLoader,
             CallTreatmentsHandler [], CallProfileHandler p]
        \<and> store p =
            (store exampleProfile)(''Diasend'' \<mapsto>
               exampleProfileConfig\<lparr>basal := Some [(0, 1), (3, 1 / 2)]\<rparr>)
        \<and> store p ''Default'' = Some exampleProfileConfig
        \<and> dom (store p) = {''Diasend'', ''Default'', ''Sport''}"
    by auto
  with example_fetch example_loader n j [unfolded n] d show ?thesis
    by blast
qed

text \<open>
  C10 as stated fails for a profile name that the store inherits. \<open>toString\<close> is not a key of
  the sample store, but \<open>in\<close> is true for it: the merge base is the inherited member and not
  the entry of the default profile, and the entry written under \<open>toString\<close> holds a basal
  schedule only, made of the basal record of the cycle alone. And when the store has no entry
  under the default profile either, there is no merge base: the cycle throws a \<open>TypeError\<close>
  after the profile loader, and no handler is called.
\<close>

theorem inherited_profile_name_does_not_use_default:
  "profileNameOf exampleConfig (sampleState (Some ''toString'') (Some [examplePrevious])) =
     ''toString''
   \<and> orDefault (nightscoutProfileLoader (sampleState (Some ''toString'') (Some [examplePrevious])))
        (fetchProfile exampleServices) = Inr exampleProfile
   \<and> ''toString'' \<notin> dom (store exampleProfile)
   \<and> store exampleProfile (defaultProfile exampleProfile) = Some exampleProfileConfig
   \<and> exampleProfileConfig =
       \<lparr>basal = Some [(0, 1)], others = [''dia'' \<mapsto> ''4'', ''timezone'' \<mapsto> ''UTC'']\<rparr>
   \<and> fst (syncDiasendDataToNightscout exampleConfig exampleAdapter exampleServices 900000 10
            (sampleState (Some ''toString'') (Some [examplePrevious]))) =
       [ObtainToken, GetPatientData (Date 0) (Date 900000), CallProfileLoader,
        CallTreatmentsHandler [],
        CallProfileHandler
          (exampleProfile\<lparr>store :=
             (store exampleProfile)(''toString'' \<mapsto>
                \<lparr>basal = Some [(3, 1 / 2)], others = Map.empty\<rparr>)\<rparr>)]
   \<and> orDefault
         (nightscoutProfileLoader
            (exampleState\<lparr>nightscoutProfileLoader := Some (Inr exampleNightProfile)\<rparr>))
         (fetchProfile exampleServices) = Inr exampleNightProfile
   \<and> store exampleNightProfile ''Diasend'' = None
   \<and> store exampleNightProfile (defaultProfile exampleNightProfile) = None
   \<and> syncDiasendDataToNightscout exampleConfig exampleAdapter exampleServices 900000 10
         (exampleState\<lparr>nightscoutProfileLoader := Some (Inr exampleNightProfile)\<rparr>) =
       ([ObtainToken, GetPatientData (Date 0) (Date 900000), CallProfileLoader],
        Inl (TypeError ''Cannot read properties of undefined (reading basal)''))"
proof -
  let ?state = "sampleState (Some ''toString'') (Some [examplePrevious]) :: string sync_args"
  have night: "orDefault
         (nightscoutProfileLoader
            (exampleState\<lparr>nightscoutProfileLoader := Some (Inr exampleNightProfile)\<rparr>))
         (fetchProfile exampleServices) = Inr exampleNightProfile"
    "store exampleNightProfile ''Diasend'' = None"
    "store exampleNightProfile (defaultProfile exampleNightProfile) = None"
    by (simp_all add: orDefault_def exampleNightProfile_def exampleProfile_def)
  have c: "existingProfileConfigOf (orDefault (Some ''toString'') ''Diasend'') exampleProfile =
             Some inheritedMember"
    by (simp add: orDefault_def sample_existing)
  have b: "orDefault (basal inheritedMember) [] = []"
    "orDefault (Some [examplePrevious]) [] = [examplePrevious]"
    "orDefault (Some ''toString'') ''Diasend'' = ''toString''"
    by (simp_all add: orDefault_def inheritedMember_def)
  have run: "fst (syncDiasendDataToNightscout exampleConfig exampleAdapter exampleServices 900000 10
            ?state) =
       [ObtainToken, GetPatientData (Date 0) (Date 900000), CallProfileLoader,
        CallTreatmentsHandler [],
        CallProfileHandler
          (exampleProfile\<lparr>store :=
             (store exampleProfile)(''toString'' \<mapsto>
                \<lparr>basal = Some [(3, 1 / 2)], others = Map.empty\<rparr>)\<rparr>)]"
    unfolding exampleServices_def sample_cycle [OF c] sample_fetched b
      sample_records sample_identified sample_basalRecords sample_unprocessed sample_merges
    by (simp add: updatedProfileOf_def inheritedMember_def)
  have n: "profileNameOf exampleConfig ?state = ''toString''"
    by (simp add: profileNameOf_def sampleState_def orDefault_def)
  have loader: "orDefault (nightscoutProfileLoader ?state) (fetchProfile exampleServices) =
      Inr exampleProfile"
    by (simp add: sampleState_def exampleServices_def servicesFor_def orDefault_def)
  have s: "''toString'' \<notin> dom (store exampleProfile)"
    "store exampleProfile (defaultProfile exampleProfile) = Some exampleProfileConfig"
    by (simp_all add: exampleProfile_def)
  have e: "exampleProfileConfig =
       \<lparr>basal = Some [(0, 1)], others = [''dia'' \<mapsto> ''4'', ''timezone'' \<mapsto> ''UTC'']\<rparr>"
    by (simp add: exampleProfileConfig_def)
  show ?thesis
    using n loader s e run night sample_night_cycle by blast
qed

end
